theory Spec2Isabelle
  imports Complex_Main "HOL-Library.Sublist" "HOL-Library.Multiset"
begin

section \<open>Advisory pipeline of the Incapsula provider (incapsula/provider.go)\<close>

text \<open>
  The provider's \<open>ConfigureContextFunc\<close> calls \<open>getLLMSuggestions\<close>, which collects the
  locally declared resources (state snapshot and \<open>*.tf\<close> files), sends several prompts to a
  reasoning agent and returns the answers as one warning diagnostic. Go strings are byte
  sequences, so they are modelled as \<open>string\<close> (a list of 8-bit characters, UTF-8 bytes
  written out). A Go function returning \<open>(T, error)\<close> returns a pair or a sum; a function with
  effects returns its result together with the list of events it produced, in program order.
\<close>

subsection \<open>Data model\<close>

text \<open>A non-nil Go \<open>error\<close> value, with its message.\<close>

datatype error = Err string

text \<open>\<open>type TfResource struct { Type string; Id string }\<close>\<close>

record TfResource =
  tf_Type :: string
  tf_Id :: string

text \<open>
  What \<open>encoding/json\<close> stores in an \<open>interface{}\<close>: nil, bool, float64, string,
  \<open>[]interface{}\<close> or \<open>map[string]interface{}\<close>.
\<close>

datatype jvalue =
    JNull
  | JBool bool
  | JNumber real
  | JString string
  | JArray "jvalue list"
  | JObject "(string \<times> jvalue) list"

text \<open>
  The anonymous struct the state snapshot is decoded into:
  \<open>Resources []struct { Type string; Instances []struct { Attributes map[string]interface{} } }\<close>.
  A nil map behaves as the empty map on lookup.
\<close>

record state_instance =
  Attributes :: "string \<rightharpoonup> jvalue"

record state_resource =
  rs_Type :: string
  Instances :: "state_instance list"

record tfstate =
  Resources :: "state_resource list"

text \<open>\<open>diag.Severity\<close> and \<open>diag.Diagnostic\<close> of the plugin SDK (the fields the code sets).\<close>

datatype Severity = Error | Warning

record Diagnostic =
  Severity :: Severity
  Summary :: string
  Detail :: string

text \<open>The keys of \<open>*schema.ResourceData\<close> that the pipeline reads with \<open>d.Get(key).(string)\<close>.\<close>

record ResourceData =
  execution_dir :: string
  api_id :: string
  api_key :: string

text \<open>\<open>log.Fatalf\<close> ends the process with \<open>os.Exit(1)\<close>.\<close>

datatype fatal = OsExit nat

subsection \<open>Effects\<close>

text \<open>One invocation of the \<open>fs.WalkDirFunc\<close> callback: \<open>path\<close>, \<open>d.IsDir()\<close>, \<open>err\<close>.\<close>

datatype walk_entry = WalkEntry string bool "error option"

text \<open>
  The collaborators outside this file: the operating system and the Go library, and the
  reasoning-agent client (\<open>queryAgent\<close>, \<open>answerWithTools\<close>), which is declared elsewhere in the
  package. \<open>json_Decode p\<close> is the result of decoding the content of the file opened at \<open>p\<close>
  into the struct above; \<open>filepath_WalkDir root\<close> is the sequence of callback invocations the
  walk makes for as long as the callback returns nil.
\<close>

record env =
  os_Getwd :: "error + string"
  os_Open :: "string \<Rightarrow> error option"
  os_Close :: "string \<Rightarrow> error option"
  json_Decode :: "string \<Rightarrow> error + tfstate"
  filepath_Join :: "string \<Rightarrow> string \<Rightarrow> string"
  filepath_Glob :: "string \<Rightarrow> error + string list"
  filepath_WalkDir :: "string \<Rightarrow> walk_entry list"
  ioutil_ReadFile :: "string \<Rightarrow> error + string"
  ioutil_WriteFile :: "string \<Rightarrow> string \<Rightarrow> error option"
  queryAgent :: "string \<Rightarrow> string \<times> error option"
  answerWithTools :: "string \<Rightarrow> string \<Rightarrow> string \<Rightarrow> string \<times> error option"

text \<open>An argument of a \<open>log.Printf\<close> call, kept unformatted.\<close>

datatype log_arg =
    ArgString string
  | ArgError error
  | ArgAttributes "string \<rightharpoonup> jvalue"

datatype event =
    LogPrintf string "log_arg list"
  | LogFatalf string "log_arg list"
  | Print string
  | OsOpen string
  | Glob string
  | WalkDir string
  | ReadFile string
  | WriteFile string string
  | QueryAgent string
  | AnswerWithTools string string string

fun is_agent_call :: "event \<Rightarrow> bool" where
  "is_agent_call (QueryAgent q) = True"
| "is_agent_call (AnswerWithTools q i k) = True"
| "is_agent_call ev = False"

subsection \<open>Library functions\<close>

text \<open>\<open>strings.Join(elems, sep)\<close>\<close>

fun strings_Join :: "string list \<Rightarrow> string \<Rightarrow> string" where
  "strings_Join [] sep = []"
| "strings_Join [x] sep = x"
| "strings_Join (x # y # ys) sep = x @ sep @ strings_Join (y # ys) sep"

text \<open>
  \<open>fmt.Sprintf("%v", resources)\<close> for a \<open>[]TfResource\<close>: a struct prints as \<open>{Type Id}\<close>, a
  slice as its elements between brackets, separated by one space.
\<close>

definition Sprintf_v_TfResource :: "TfResource \<Rightarrow> string" where
  "Sprintf_v_TfResource r = ''{'' @ tf_Type r @ '' '' @ tf_Id r @ ''}''"

definition Sprintf_v_TfResources :: "TfResource list \<Rightarrow> string" where
  "Sprintf_v_TfResources rs = ''['' @ strings_Join (map Sprintf_v_TfResource rs) '' '' @ '']''"

subsection \<open>Prompt templates\<close>

text \<open>
  The raw string literals of the prompt-building functions, byte for byte. A template is cut
  at each \<open>%s\<close> verb (the only verb in them): \<open>fmt.Sprintf\<close> puts a string argument there
  unchanged.
\<close>

definition getHtmlContent_format :: string where
  "getHtmlContent_format =
     ''\<newline>'' @
     ''You are a system that takes a final answer to the user question and turns that answer into a single, well-structured, visually organized HTML file.\<newline>'' @
     ''\<newline>'' @
     ''Overall behavior\<newline>'' @
     ''\<newline>'' @
     ''Transform that explanation into a self-contained HTML document that:\<newline>'' @
     ''\<newline>'' @
     ''Uses semantic structure (sections, headings, lists).\<newline>'' @
     ''\<newline>'' @
     ''Uses a simple but attractive layout (cards, columns, timelines, etc.).\<newline>'' @
     ''\<newline>'' @
     ''Includes inline CSS so it can be saved directly as index.html and opened in a browser.\<newline>'' @
     ''\<newline>'' @
     ''Output only the final HTML. Do not include any explanations, comments, or markdown.\<newline>'' @
     ''\<newline>'' @
     ''Content requirements\<newline>'' @
     ''\<newline>'' @
     ''Identify:\<newline>'' @
     ''\<newline>'' @
     ''Main idea / overview\<newline>'' @
     ''\<newline>'' @
     ''3'' @ [CHR 0xE2, CHR 0x80, CHR 0x93] @ ''7 key points or components\<newline>'' @
     ''\<newline>'' @
     ''Any process, timeline, or hierarchy that can be visualized\<newline>'' @
     ''\<newline>'' @
     ''Summarize in clear, concise text (no huge paragraphs).\<newline>'' @
     ''\<newline>'' @
     ''All code snippets MUST be included in the recomendations.\<newline>'' @
     ''\<newline>'' @
     ''include BOTH original snippets and improved snippets. (if exists)\<newline>'' @
     ''\<newline>'' @
     ''HTML requirements:\<newline>'' @
     ''\<newline>'' @
     ''Produce a complete HTML5 document:\<newline>'' @
     ''\<newline>'' @
     ''Use this structure (adapt as needed):\<newline>'' @
     ''\<newline>'' @
     ''<html>, <head>, <body> with:\<newline>'' @
     ''\<newline>'' @
     ''<meta charset='' @ [CHR 0x22] @ ''UTF-8'' @ [CHR 0x22] @ ''>\<newline>'' @
     ''\<newline>'' @
     ''<title>: short title derived from the topic\<newline>'' @
     ''\<newline>'' @
     ''<style>: all CSS inline in the head (no external files)\<newline>'' @
     ''\<newline>'' @
     ''In <body>:\<newline>'' @
     ''\<newline>'' @
     ''A top header with:\<newline>'' @
     ''\<newline>'' @
     ''Main title\<newline>'' @
     ''\<newline>'' @
     ''Short subtitle/description\<newline>'' @
     ''\<newline>'' @
     ''A main content container with:\<newline>'' @
     ''\<newline>'' @
     ''Overview section\<newline>'' @
     ''\<newline>'' @
     ''Cards or columns for key points\<newline>'' @
     ''\<newline>'' @
     ''At least one '' @ [CHR 0xE2, CHR 0x80, CHR 0x9C] @ ''graphic'' @ [CHR 0xE2, CHR 0x80, CHR 0x9D] @ '' layout:\<newline>'' @
     ''\<newline>'' @
     ''E.g. a timeline, process flow, comparison table, or step boxes\<newline>'' @
     ''\<newline>'' @
     ''These can be built using HTML + CSS (no JS required).\<newline>'' @
     ''\<newline>'' @
     ''Visual style guidelines:\<newline>'' @
     ''\<newline>'' @
     ''Use a clean, modern layout with:\<newline>'' @
     ''\<newline>'' @
     ''A max-width centered container\<newline>'' @
     ''\<newline>'' @
     ''Some padding and spacing between sections\<newline>'' @
     ''\<newline>'' @
     ''Rounded corners and subtle box shadows for cards\<newline>'' @
     ''\<newline>'' @
     ''Use CSS Flexbox or CSS Grid for multi-column layouts where helpful.\<newline>'' @
     ''\<newline>'' @
     ''Use readable fonts (e.g. system fonts via font-family: system-ui, -apple-system, BlinkMacSystemFont, '' @ [CHR 0x22] @ ''Segoe UI'' @ [CHR 0x22] @ '', sans-serif;).\<newline>'' @
     ''\<newline>'' @
     ''Use a light background and slightly darker cards, with clear contrast between headings and body text.\<newline>'' @
     ''\<newline>'' @
     ''Use consistent heading sizes (e.g., h1 main title, h2 section titles, h3 card titles).\<newline>'' @
     ''\<newline>'' @
     ''Use icons or emojis where helpful (e.g. '' @ [CHR 0xE2, CHR 0x9C, CHR 0x85] @ '', '' @ [CHR 0xE2, CHR 0x9A, CHR 0x99, CHR 0xEF, CHR 0xB8, CHR 0x8F] @ '', '' @ [CHR 0xF0, CHR 0x9F, CHR 0x93, CHR 0x8C] @ '', '' @ [CHR 0xE2, CHR 0x8F, CHR 0xB1, CHR 0xEF, CHR 0xB8, CHR 0x8F] @ '') but not excessively.\<newline>'' @
     ''\<newline>'' @
     ''Accessibility:\<newline>'' @
     ''\<newline>'' @
     ''Ensure good color contrast.\<newline>'' @
     ''\<newline>'' @
     ''Structure headings in order (h1, then h2, etc.).\<newline>'' @
     ''\<newline>'' @
     ''Use lists (<ul>, <ol>) instead of manually formatted bullets.\<newline>'' @
     ''\<newline>'' @
     ''No JavaScript is required unless it'' @ [CHR 0xE2, CHR 0x80, CHR 0x99] @ ''s absolutely necessary for layout; prefer pure HTML + CSS.\<newline>'' @
     ''\<newline>'' @
     ''Output format\<newline>'' @
     ''\<newline>'' @
     ''Return only the finished HTML document.\<newline>'' @
     ''\<newline>'' @
     ''Do not wrap it in code fences.\<newline>'' @
     ''\<newline>'' @
     ''Do not add any explanation or commentary.\<newline>'' @
     ''\<newline>'' @
     ''User request to base the HTML on: ''"

definition getImpervaNewFeaturesSuggestions_format_0 :: string where
  "getImpervaNewFeaturesSuggestions_format_0 =
     ''You are an infrastructure-as-code assistant that helps upgrade a customer'' @ [CHR 0x27] @ ''s Terraform configuration to use new features of a specific Terraform provider.\<newline>'' @
     ''\<newline>'' @
     ''You will receive three kinds of inputs:\<newline>'' @
     ''1) A list of NEW FEATURES for the provider (high level description, changelog, release notes, etc.).\<newline>'' @
     ''2) The PROVIDER DOCUMENTATION (resources, data sources, arguments, example configs).\<newline>'' @
     ''3) The CUSTOMER TERRAFORM FILE(S) (current .tf configuration).\<newline>'' @
     ''\<newline>'' @
     ''Your goals:\<newline>'' @
     ''- Understand what each new feature does and which provider resources / data sources / arguments are related to it.\<newline>'' @
     ''- Inspect the customer'' @ [CHR 0xE2, CHR 0x80, CHR 0x99] @ ''s existing Terraform configuration.\<newline>'' @
     ''- Identify which new features are NOT yet used in the customer'' @ [CHR 0xE2, CHR 0x80, CHR 0x99] @ ''s config.\<newline>'' @
     ''- Propose concrete Terraform changes (new resources, data sources, arguments, or blocks) that would enable those missing features.\<newline>'' @
     ''\<newline>'' @
     ''====================\<newline>'' @
     ''WORKFLOW\<newline>'' @
     ''====================\<newline>'' @
     ''\<newline>'' @
     ''1. Parse the new features\<newline>'' @
     ''- For each new feature:\<newline>'' @
     ''  - Give it a short identifier (e.g., '' @ [CHR 0x22] @ ''Feature 1 '' @ [CHR 0xE2, CHR 0x80, CHR 0x93] @ '' Enhanced logging'' @ [CHR 0x22] @ '').\<newline>'' @
     ''  - Summarize what it does in 1'' @ [CHR 0xE2, CHR 0x80, CHR 0x93] @ ''2 sentences.\<newline>'' @
     ''  - Map it to specific provider documentation elements:\<newline>'' @
     ''    - Resource types\<newline>'' @
     ''    - Data sources\<newline>'' @
     ''    - Arguments / nested blocks\<newline>'' @
     ''    - Any version constraints\<newline>'' @
     ''\<newline>'' @
     ''2. Map features to provider documentation\<newline>'' @
     ''- For each feature:\<newline>'' @
     ''  - Find the most relevant resource(s) and/or data source(s).\<newline>'' @
     ''  - Note the required and important optional arguments.\<newline>'' @
     ''  - Capture any limitations or prerequisites from the docs.\<newline>'' @
     ''- Do not invent arguments or resources that are not present in the docs.\<newline>'' @
     ''  - If something is unclear or ambiguous, explicitly say so.\<newline>'' @
     ''\<newline>'' @
     ''3. Analyze the customer Terraform files\<newline>'' @
     ''- Build a mental model of the configuration:\<newline>'' @
     ''  - Which provider is used and what version constraints exist.\<newline>'' @
     ''  - Which resources and data sources are already present.\<newline>'' @
     ''  - Common naming patterns, tags, variable naming, modules, and conventions.\<newline>'' @
     ''- For each new feature:\<newline>'' @
     ''  - Check if it is already used in any resource, data source, or argument.\<newline>'' @
     ''  - If it is used, briefly note where and how.\<newline>'' @
     ''  - If it is NOT used, mark the feature as '' @ [CHR 0x22] @ ''missing'' @ [CHR 0x22] @ ''.\<newline>'' @
     ''\<newline>'' @
     ''4. Suggest additions/changes for missing features\<newline>'' @
     ''For every feature marked as '' @ [CHR 0xE2, CHR 0x80, CHR 0x9C] @ ''missing'' @ [CHR 0xE2, CHR 0x80, CHR 0x9D] @ '':\<newline>'' @
     ''- Propose one or more Terraform changes that would enable the feature:\<newline>'' @
     ''  - New resource blocks, data sources, or nested blocks.\<newline>'' @
     ''  - New arguments on existing resources (if clearly safe and backwards-compatible).\<newline>'' @
     ''- Follow these rules:\<newline>'' @
     ''  - Preserve the customer'' @ [CHR 0xE2, CHR 0x80, CHR 0x99] @ ''s style:\<newline>'' @
     ''    - Naming conventions for resources and variables.\<newline>'' @
     ''    - Tagging conventions.\<newline>'' @
     ''    - Module structure and layout.\<newline>'' @
     ''  - Minimize disruptions:\<newline>'' @
     ''    - Prefer adding new blocks or arguments over refactoring everything.\<newline>'' @
     ''    - Avoid destructive or breaking changes unless clearly required and explicitly flagged as such.\<newline>'' @
     ''  - Be explicit about any assumptions you make about the environment.\<newline>'' @
     ''\<newline>'' @
     ''5. Validate and annotate your suggestions\<newline>'' @
     ''- For each suggested change:\<newline>'' @
     ''  - Reference the relevant section(s) of the provider docs (resource name, argument names, behavior).\<newline>'' @
     ''  - Explain briefly how this change activates the new feature.\<newline>'' @
     ''  - Note any potential side effects, risks, or prerequisites (e.g., '' @ [CHR 0x22] @ ''requires provider version >= X.Y'' @ [CHR 0x22] @ '').\<newline>'' @
     ''\<newline>'' @
     ''====================\<newline>'' @
     ''OUTPUT FORMAT\<newline>'' @
     ''====================\<newline>'' @
     ''\<newline>'' @
     ''Respond using this structure:\<newline>'' @
     ''\<newline>'' @
     ''1) Feature Coverage Summary\<newline>'' @
     ''   - For each feature:\<newline>'' @
     ''     - Feature ID:\<newline>'' @
     ''     - Used in current config?: (Yes/No/Partial)\<newline>'' @
     ''     - Short reasoning (1'' @ [CHR 0xE2, CHR 0x80, CHR 0x93] @ ''2 sentences).\<newline>'' @
     ''\<newline>'' @
     ''2) Proposed Terraform Changes\<newline>'' @
     ''   For each feature with '' @ [CHR 0x22] @ ''No'' @ [CHR 0x22] @ '' or '' @ [CHR 0x22] @ ''Partial'' @ [CHR 0x22] @ '' usage:\<newline>'' @
     ''   - Feature ID:\<newline>'' @
     ''   - Rationale:\<newline>'' @
     ''   - Suggested change type: (New resource / New data source / New arguments / Other)\<newline>'' @
     ''   - Terraform snippet:\<newline>'' @
     ''     '' @ [CHR 0x22] @ ''hcl\<newline>'' @
     [CHR 0x09] @ ''# Your suggested HCL code here\<newline>'' @
     [CHR 0x09, CHR 0x22] @ ''\<newline>'' @
     ''   - Notes:\<newline>'' @
     ''     - Relevant provider resources/data sources/arguments:\<newline>'' @
     ''     - Version requirements:\<newline>'' @
     ''     - Risks or side effects:\<newline>'' @
     ''     - Assumptions:\<newline>'' @
     ''\<newline>'' @
     ''3) Optional Refactoring / Improvements (if applicable)\<newline>'' @
     ''   - Only include if there are clearly beneficial and low-risk refactors.\<newline>'' @
     ''   - List them as bullet points, each with:\<newline>'' @
     ''     - What to change.\<newline>'' @
     ''     - Why it'' @ [CHR 0xE2, CHR 0x80, CHR 0x99] @ ''s beneficial.\<newline>'' @
     ''     - Whether it is backwards-compatible.\<newline>'' @
     ''\<newline>'' @
     ''====================\<newline>'' @
     ''STYLE & CONSTRAINTS\<newline>'' @
     ''====================\<newline>'' @
     ''\<newline>'' @
     ''- Use valid HCL syntax in all snippets.\<newline>'' @
     ''- Do NOT invent undocumented arguments, blocks, or resources.\<newline>'' @
     ''- If you are unsure about something due to ambiguous docs or missing context, clearly say '' @ [CHR 0x22] @ ''UNCERTAIN'' @ [CHR 0x22] @ '' and explain why.\<newline>'' @
     ''- Keep explanations concise but clear.\<newline>'' @
     ''- Do not change or remove existing resources unless it is clearly necessary for the new feature; if you propose such a change, highlight it as potentially breaking.\<newline>'' @
     ''\<newline>'' @
     ''The Imperva provider docs are: ''"

definition getImpervaNewFeaturesSuggestions_format_1 :: string where
  "getImpervaNewFeaturesSuggestions_format_1 =
     ''\<newline>'' @
     ''\<newline>'' @
     ''The new features are: ''"

definition getImpervaNewFeaturesSuggestions_format_2 :: string where
  "getImpervaNewFeaturesSuggestions_format_2 =
     ''\<newline>'' @
     ''\<newline>'' @
     ''The current Terraform code is as follows: ''"

definition getImpervaNewFeaturesSuggestions_format_3 :: string where
  "getImpervaNewFeaturesSuggestions_format_3 =
     ''\<newline>'' @
     ''\<newline>''"

definition getImpervaResourceReplaceSuggestions_format :: string where
  "getImpervaResourceReplaceSuggestions_format =
     ''\<newline>'' @
     ''You are an expert Terraform engineer specializing in provider-level correctness.\<newline>'' @
     ''Your task is to analyze Terraform files I provide and compare them against the current official provider documentation.\<newline>'' @
     ''\<newline>'' @
     ''When I give you Terraform files, follow all instructions below:\<newline>'' @
     ''\<newline>'' @
     ''What You Must Do\<newline>'' @
     ''1. Identify Issues\<newline>'' @
     ''2. Provide Exact Replacement Snippets\<newline>'' @
     ''\<newline>'' @
     ''Focus on the following areas, arranged by priority:\<newline>'' @
     ''\<newline>'' @
     ''Deprecated resources\<newline>'' @
     ''\<newline>'' @
     ''Deprecated arguments or attributes\<newline>'' @
     ''\<newline>'' @
     ''Removed or breaking-change arguments\<newline>'' @
     ''\<newline>'' @
     ''Misconfigurations that differ from current provider requirements\<newline>'' @
     ''\<newline>'' @
     ''Arguments that should be nested or relocated (based on provider updates)\<newline>'' @
     ''\<newline>'' @
     ''Required attributes that are missing\<newline>'' @
     ''\<newline>'' @
     ''Any incorrect or outdated configuration patterns\<newline>'' @
     ''\<newline>'' @
     ''For each issue identified, provide:  \<newline>'' @
     ''- A clear description of the problem.  \<newline>'' @
     ''- The original Terraform snippet.  \<newline>'' @
     ''- An improved Terraform snippet (ready to paste).  \<newline>'' @
     ''- A brief explanation of why the improvement is necessary and how it aligns with best practices.\<newline>'' @
     ''\<newline>'' @
     ''Important Instructions:\<newline>'' @
     ''- Keep context and variable names unless renaming is part of the improvement, and don'' @ [CHR 0x27] @ ''t suggest names that already exists'' @ [CHR 0x27] @ ''\<newline>'' @
     ''- Combine multiple improvements into one clean replacement snippet.\<newline>'' @
     ''- Ensure the replacement is syntactically correct.\<newline>'' @
     ''- Never output partial fragments'' @ [CHR 0xE2, CHR 0x80, CHR 0x94] @ ''always provide complete blocks.\<newline>'' @
     ''\<newline>'' @
     ''3. Output Format (Must Follow Exactly)\<newline>'' @
     ''\<newline>'' @
     ''For every issue:\<newline>'' @
     ''\<newline>'' @
     ''Issue <number> '' @ [CHR 0xE2, CHR 0x80, CHR 0x94] @ '' <short title>\<newline>'' @
     ''\<newline>'' @
     ''Original snippet:\<newline>'' @
     ''\<newline>'' @
     ''<original>\<newline>'' @
     ''\<newline>'' @
     ''Improved snippet:\<newline>'' @
     ''\<newline>'' @
     ''<improved>\<newline>'' @
     ''\<newline>'' @
     ''Explanation:\<newline>'' @
     ''<clear explanation>\<newline>'' @
     ''\<newline>'' @
     ''After analyzing all issues:\<newline>'' @
     ''\<newline>'' @
     ''Summary of Improvements\<newline>'' @
     ''\<newline>'' @
     ''- Bullet points summarizing key changes.\<newline>'' @
     ''\<newline>'' @
     ''Important Rules\<newline>'' @
     ''\<newline>'' @
     ''- Do not invent architecture not implied by the code.\<newline>'' @
     ''- Only modify what is necessary.\<newline>'' @
     ''- Keep improvements realistic and aligned with actual Terraform usage.\<newline>'' @
     ''- If something looks dangerous or costly, call it out clearly.\<newline>'' @
     ''- If the provided Terraform is already optimal, say so and explain why.\<newline>'' @
     ''\<newline>'' @
     ''The current Terraform resources are as follows: ''"

definition getGeneralTFBestPractices_format :: string where
  "getGeneralTFBestPractices_format =
     ''You are an expert Terraform engineer and cloud architect.\<newline>'' @
     ''Your task is to analyze the Terraform code I provide and suggest improvements strictly following Terraform best practices specified in the following link: https://www.terraform-best-practices.com/\<newline>'' @
     ''\<newline>'' @
     ''When I give you Terraform files, follow all instructions below:\<newline>'' @
     ''\<newline>'' @
     ''What You Must Do\<newline>'' @
     ''1. Identify Issues\<newline>'' @
     ''2. Provide Exact Replacement Snippets\<newline>'' @
     ''\<newline>'' @
     ''Focus on the following areas, arranged by priority:\<newline>'' @
     ''\<newline>'' @
     [CHR 0x09] @ ''1. **Security Best Practices**  \<newline>'' @
     [CHR 0x09] @ ''   - Ensure secrets values like passwords are not hard-coded\<newline>'' @
     [CHR 0x09] @ ''   - Verify IAM policies follow the principle of least privilege, avoiding overly permissive roles.  \<newline>'' @
     [CHR 0x09] @ ''   - Check for proper encryption of sensitive data both in transit and at rest.  \<newline>'' @
     [CHR 0x09] @ ''\<newline>'' @
     [CHR 0x09] @ ''2. **Provider and Resource Configuration**  \<newline>'' @
     [CHR 0x09] @ ''   - Identify deprecated arguments, or attributes and suggest replacements based on the latest provider documentation.  \<newline>'' @
     [CHR 0x09] @ ''   - Ensure provider configurations are correct and up-to-date, including version pinning to avoid unexpected behavior.  \<newline>'' @
     [CHR 0x09] @ ''\<newline>'' @
     [CHR 0x09] @ ''3. **Code Modularity and Reusability**  \<newline>'' @
     [CHR 0x09] @ ''   - Evaluate the use of modules to ensure proper structure and reusability of Terraform code.  \<newline>'' @
     [CHR 0x09] @ ''   - Identify opportunities to refactor repetitive code into reusable modules.  \<newline>'' @
     [CHR 0x09] @ ''\<newline>'' @
     [CHR 0x09] @ ''4. **Variable and Input Validation**  \<newline>'' @
     [CHR 0x09] @ ''   - Replace hard-coded values with variables to improve flexibility and maintainability.  \<newline>'' @
     [CHR 0x09] @ ''   - Ensure variables have proper types, validation rules, and default values where applicable.  \<newline>'' @
     [CHR 0x09] @ ''\<newline>'' @
     [CHR 0x09] @ ''5. **Resource Naming and Tagging**  \<newline>'' @
     [CHR 0x09] @ ''   - Check for consistent and meaningful resource naming conventions and not the resource parameters.\<newline>'' @
     [CHR 0x09] @ ''   - Ensure resources are tagged with metadata (e.g., environment, owner, purpose) to improve management and cost tracking.  \<newline>'' @
     [CHR 0x09] @ ''\<newline>'' @
     [CHR 0x09] @ ''6. **Cost Optimization and Efficiency**  \<newline>'' @
     [CHR 0x09] @ ''   - Identify inefficient or costly configurations and suggest improvements to reduce resource usage and expenses.  \<newline>'' @
     [CHR 0x09] @ ''\<newline>'' @
     [CHR 0x09] @ ''7. **General Best Practices**  \<newline>'' @
     [CHR 0x09] @ ''   - Ensure the code adheres to Terraform and cloud provider best practices, avoiding anti-patterns or risky configurations.  \<newline>'' @
     [CHR 0x09] @ ''   - Verify that all required attributes are present and correctly configured.  \<newline>'' @
     ''\<newline>'' @
     ''For each issue identified, provide:  \<newline>'' @
     ''- A clear description of the problem.  \<newline>'' @
     ''- The original Terraform snippet.  \<newline>'' @
     ''- An improved Terraform snippet (ready to paste).  \<newline>'' @
     ''- A brief explanation of why the improvement is necessary and how it aligns with best practices.\<newline>'' @
     ''\<newline>'' @
     ''Important Instructions:\<newline>'' @
     ''- Keep context and variable names unless renaming is part of the improvement, and don'' @ [CHR 0x27] @ ''t suggest names that already exists'' @ [CHR 0x27] @ ''\<newline>'' @
     ''- Combine multiple improvements into one clean replacement snippet.\<newline>'' @
     ''- Ensure the replacement is syntactically correct.\<newline>'' @
     ''- Never output partial fragments'' @ [CHR 0xE2, CHR 0x80, CHR 0x94] @ ''always provide complete blocks.\<newline>'' @
     ''\<newline>'' @
     ''3. Output Format (Must Follow Exactly)\<newline>'' @
     ''\<newline>'' @
     ''For every issue:\<newline>'' @
     ''\<newline>'' @
     ''Issue <number> '' @ [CHR 0xE2, CHR 0x80, CHR 0x94] @ '' <short title>\<newline>'' @
     ''\<newline>'' @
     ''Original snippet:\<newline>'' @
     ''\<newline>'' @
     ''<original>\<newline>'' @
     ''\<newline>'' @
     ''Improved snippet:\<newline>'' @
     ''\<newline>'' @
     ''<improved>\<newline>'' @
     ''\<newline>'' @
     ''Explanation:\<newline>'' @
     ''<clear explanation>\<newline>'' @
     ''\<newline>'' @
     ''After analyzing all issues:\<newline>'' @
     ''\<newline>'' @
     ''Summary of Improvements\<newline>'' @
     ''\<newline>'' @
     ''- Bullet points summarizing key changes.\<newline>'' @
     ''\<newline>'' @
     ''Important Rules\<newline>'' @
     ''\<newline>'' @
     ''- Do not invent architecture not implied by the code.\<newline>'' @
     ''- Only modify what is necessary.\<newline>'' @
     ''- Keep improvements realistic and aligned with actual Terraform usage.\<newline>'' @
     ''- If something looks dangerous or costly, call it out clearly.\<newline>'' @
     ''- If the provided Terraform is already optimal, say so and explain why.\<newline>'' @
     ''\<newline>'' @
     ''The current Terraform resources are as follows: ''"

definition getAiAnswer_banner :: string where
  "getAiAnswer_banner =
     ''\<newline>'' @
     ''      [Robot AI Assistant]\<newline>'' @
     ''        _____\<newline>'' @
     ''       | . . |\<newline>'' @
     ''       |  ^  |\<newline>'' @
     ''       | '' @ [CHR 0x27] @ ''-'' @ [CHR 0x27] @ '' |\<newline>'' @
     ''       +-----+\<newline>'' @
     ''      /|     |'' @ [CHR 0x5C] @ ''\<newline>'' @
     ''     /_|_____|_'' @ [CHR 0x5C] @ ''\<newline>'' @
     ''       /  |  '' @ [CHR 0x5C] @ ''\<newline>'' @
     ''      (   |   )\<newline>'' @
     ''       '' @ [CHR 0x5C] @ ''_/ '' @ [CHR 0x5C] @ ''_/\<newline>'' @
     '' you can find MY recomendations in the following link: ''"

subsection \<open>Inventory collector\<close>

text \<open>
  The inner loop of \<open>getAllResourcesTypeAndId\<close>:
  \<open>id, ok := instance.Attributes["id"]; if ok { if idStr, isStr := id.(string); isStr { append } }\<close>.
\<close>

fun instances_loop :: "string \<Rightarrow> state_instance list \<Rightarrow> TfResource list \<Rightarrow> TfResource list" where
  "instances_loop ty [] resources = resources"
| "instances_loop ty (instance # rest) resources =
     (case Attributes instance ''id'' of
        None \<Rightarrow> instances_loop ty rest resources
      | Some v \<Rightarrow>
          (case v of
             JString idStr \<Rightarrow>
               instances_loop ty rest (resources @ [\<lparr>tf_Type = ty, tf_Id = idStr\<rparr>])
           | _ \<Rightarrow> instances_loop ty rest resources))"

fun resources_loop :: "state_resource list \<Rightarrow> TfResource list \<Rightarrow> TfResource list" where
  "resources_loop [] resources = resources"
| "resources_loop (resource # rest) resources =
     resources_loop rest (instances_loop (rs_Type resource) (Instances resource) resources)"

text \<open>The deferred \<open>file.Close()\<close>, which logs its error.\<close>

definition deferred_close :: "env \<Rightarrow> string \<Rightarrow> event list" where
  "deferred_close e statePath =
     (case os_Close e statePath of
        None \<Rightarrow> []
      | Some err \<Rightarrow> [LogPrintf ''[Error] Unable to close state file: %v'' [ArgError err]])"

definition getAllResourcesTypeAndId :: "env \<Rightarrow> string \<Rightarrow> TfResource list \<times> event list" where
  "getAllResourcesTypeAndId e statePath =
     (case os_Open e statePath of
        Some err \<Rightarrow>
          ([], [OsOpen statePath,
                LogPrintf ''[Error] Unable to open state file: %v'' [ArgError err]])
      | None \<Rightarrow>
          (case json_Decode e statePath of
             Inl err \<Rightarrow>
               ([], [OsOpen statePath,
                     LogPrintf ''[Error] Unable to decode state file: %v'' [ArgError err]]
                    @ deferred_close e statePath)
           | Inr state \<Rightarrow>
               (resources_loop (Resources state) [],
                [OsOpen statePath] @ deferred_close e statePath)))"

text \<open>\<open>getAllResourcesFromState\<close>: the same reading, keeping every attribute map.\<close>

fun attributes_loop ::
  "state_resource list \<Rightarrow> (string \<rightharpoonup> jvalue) list \<Rightarrow> (string \<rightharpoonup> jvalue) list" where
  "attributes_loop [] resources = resources"
| "attributes_loop (resource # rest) resources =
     attributes_loop rest (resources @ map Attributes (Instances resource))"

definition getAllResourcesFromState ::
  "env \<Rightarrow> string \<Rightarrow> (string \<rightharpoonup> jvalue) list \<times> event list" where
  "getAllResourcesFromState e statePath =
     (case os_Open e statePath of
        Some err \<Rightarrow>
          ([], [OsOpen statePath,
                LogPrintf ''[Error] Unable to open state file: %v'' [ArgError err]])
      | None \<Rightarrow>
          (case json_Decode e statePath of
             Inl err \<Rightarrow>
               ([], [OsOpen statePath,
                     LogPrintf ''[Error] Unable to decode state file: %v'' [ArgError err]]
                    @ deferred_close e statePath)
           | Inr state \<Rightarrow>
               (attributes_loop (Resources state) [],
                [OsOpen statePath] @ deferred_close e statePath)))"

text \<open>
  The loop of \<open>getAllResourcesFromTfFiles\<close>: a file that cannot be read is skipped
  (\<open>continue\<close>), any other adds its content and a newline.
\<close>

fun tf_files_loop :: "env \<Rightarrow> string list \<Rightarrow> string \<Rightarrow> string \<times> event list" where
  "tf_files_loop e [] content = (content, [])"
| "tf_files_loop e (file # files) content =
     (case ioutil_ReadFile e file of
        Inl err \<Rightarrow>
          (let (c, evs) = tf_files_loop e files content in (c, ReadFile file # evs))
      | Inr src \<Rightarrow>
          (let (c, evs) = tf_files_loop e files (content @ src @ ''\<newline>'')
           in (c, ReadFile file # evs)))"

definition getAllResourcesFromTfFiles ::
  "env \<Rightarrow> string \<Rightarrow> (string \<times> error option) \<times> event list" where
  "getAllResourcesFromTfFiles e dir =
     (let pattern = filepath_Join e dir ''*.tf'' in
      case filepath_Glob e pattern of
        Inl err \<Rightarrow> (('''', Some err), [Glob pattern])
      | Inr files \<Rightarrow>
          (let (content, evs) = tf_files_loop e files '''' in ((content, None), Glob pattern # evs)))"

text \<open>
  \<open>readAndConcatWebsiteFiles\<close>: the callback returns the first error it meets, which stops
  the walk and makes the function return the empty string with that error.
\<close>

fun walk_loop ::
  "env \<Rightarrow> walk_entry list \<Rightarrow> string \<Rightarrow> (string \<times> error option) \<times> event list" where
  "walk_loop e [] builder = ((builder, None), [])"
| "walk_loop e (WalkEntry path isDir err # rest) builder =
     (case err of
        Some er \<Rightarrow> (('''', Some er), [])
      | None \<Rightarrow>
          (if \<not> isDir then
             (case ioutil_ReadFile e path of
                Inl er \<Rightarrow> (('''', Some er), [ReadFile path])
              | Inr content \<Rightarrow>
                  (let (r, evs) = walk_loop e rest (builder @ content)
                   in (r, ReadFile path # evs)))
           else walk_loop e rest builder))"

definition readAndConcatWebsiteFiles ::
  "env \<Rightarrow> string \<Rightarrow> (string \<times> error option) \<times> event list" where
  "readAndConcatWebsiteFiles e root' =
     (let (r, evs) = walk_loop e (filepath_WalkDir e root') '''' in (r, WalkDir root' # evs))"

subsection \<open>Advisory tasks\<close>

text \<open>
  The prompt of \<open>getMissingResources\<close>, one definition for each string literal of the
  concatenation, ending with \<open>fmt.Sprintf("%v", resources)\<close>.
\<close>

definition missing_q1 :: string where
  "missing_q1 = ''Your task is to gather the full list of sites using the available MCP tool and compare it against the configuration provided in the user message.''"

definition missing_q2 :: string where
  "missing_q2 = '' Fetch all sites using the tool with a page size of 100.''"

definition missing_q3 :: string where
  "missing_q3 = '' After retrieving the remote sites, compare them to the sites defined in the provided configuration. ''"

definition missing_q4 :: string where
  "missing_q4 = '' Produce a JSON array containing only the differences between the two sets. ''"

definition missing_q5 :: string where
  "missing_q5 = '' Your output must contain only the following two sections, with no additional words, explanations, or text:\<newline>''"

definition missing_q6 :: string where
  "missing_q6 = '' add these resources to your configuration:\<newline>resource '' @ [CHR 0x22] @ ''incapsula_site_v3'' @ [CHR 0x22] @ '' '' @ [CHR 0x22] @ ''<site_name>'' @ [CHR 0x22] @ '' {{ name = '' @ [CHR 0x22] @ ''<site_name>'' @ [CHR 0x22] @ '' }}''"

definition missing_q7 :: string where
  "missing_q7 = '' run this import commands \<newline>terraform import incapsula_site_v3.<site_name> <resource_id>''"

definition missing_q8 :: string where
  "missing_q8 = '' Output only these blocks with no additional words, explanations, or text.''"

definition missing_q9 :: string where
  "missing_q9 = '' Only include sites that exist in one source but not the other.''"

definition missing_q10 :: string where
  "missing_q10 = '' If a tool call is required to obtain the data, call it.''"

definition missing_q11 :: string where
  "missing_q11 = '' this is the provided configuration: ''"

definition getMissingResources_question :: "TfResource list \<Rightarrow> string" where
  "getMissingResources_question resources =
     missing_q1 @ missing_q2 @ missing_q3 @ missing_q4 @ missing_q5 @ missing_q6 @ missing_q7 @
     missing_q8 @ missing_q9 @ missing_q10 @ missing_q11 @ Sprintf_v_TfResources resources"

definition getMissingResources ::
  "env \<Rightarrow> ResourceData \<Rightarrow> TfResource list \<Rightarrow> string \<times> event list" where
  "getMissingResources e d resources =
     (let question = getMissingResources_question resources;
          (sitesAnswer, _) = answerWithTools e question (api_id d) (api_key d)
      in (sitesAnswer, [AnswerWithTools question (api_id d) (api_key d)]))"

text \<open>
  An older copy of this file in the repository builds a different prompt for the same task: a
  fixed text, made of two string literals, in which the local resources do not appear.
\<close>

definition getMissingResources_part_000_question :: string where
  "getMissingResources_part_000_question =
     ''Fetch all the sites from the backend, use pagination 50, or fetch all pages. then output all the sites in the following json format: '' @
     ''[{{ '' @ [CHR 0x22] @ ''resource_type'' @ [CHR 0x22] @ '': '' @ [CHR 0x22] @ ''<resource_type>'' @ [CHR 0x22] @ '', '' @ [CHR 0x22] @ ''resource_id'' @ [CHR 0x22] @ '': '' @ [CHR 0x22] @ ''<resource_id>'' @ [CHR 0x22] @ '', '' @ [CHR 0x22] @ ''site name'' @ [CHR 0x22] @ '': '' @ [CHR 0x22] @ ''<site_name>'' @ [CHR 0x22] @ '' }}]''"

definition getMissingResources_part_000 ::
  "env \<Rightarrow> ResourceData \<Rightarrow> TfResource list \<Rightarrow> string \<times> event list" where
  "getMissingResources_part_000 e d resources =
     (let question = getMissingResources_part_000_question;
          (answer, _) = answerWithTools e question (api_id d) (api_key d)
      in (answer, [AnswerWithTools question (api_id d) (api_key d)]))"

definition getGeneralTFBestPractices :: "env \<Rightarrow> string \<Rightarrow> string \<times> event list" where
  "getGeneralTFBestPractices e resources =
     (let question = getGeneralTFBestPractices_format @ resources;
          (answer, _) = queryAgent e question
      in (answer, [QueryAgent question]))"

definition getImpervaResourceReplaceSuggestions ::
  "env \<Rightarrow> ResourceData \<Rightarrow> string \<Rightarrow> string \<Rightarrow> string \<times> event list" where
  "getImpervaResourceReplaceSuggestions e d resources docs =
     (let question = getImpervaResourceReplaceSuggestions_format @ resources;
          (answer, _) = queryAgent e question
      in (answer, [QueryAgent question]))"

definition getNewFeatures :: string where
  "getNewFeatures = ''site level managed certificate''"

definition getImpervaNewFeaturesSuggestions ::
  "env \<Rightarrow> ResourceData \<Rightarrow> string \<Rightarrow> string \<Rightarrow> string \<times> event list" where
  "getImpervaNewFeaturesSuggestions e d resources docs =
     (let newFeatures = getNewFeatures;
          question =
            getImpervaNewFeaturesSuggestions_format_0 @ docs @
            getImpervaNewFeaturesSuggestions_format_1 @ newFeatures @
            getImpervaNewFeaturesSuggestions_format_2 @ resources @
            getImpervaNewFeaturesSuggestions_format_3;
          (answer, _) = queryAgent e question
      in (answer, [QueryAgent question]))"

subsection \<open>Orchestrator\<close>

definition runDiagnostics ::
  "env \<Rightarrow> ResourceData \<Rightarrow> TfResource list \<Rightarrow> string \<Rightarrow> string \<Rightarrow> string \<times> event list" where
  "runDiagnostics e d resources docs allResourcesFromFiles =
     (let answer = '''';
          (r1, evs1) = getMissingResources e d resources;
          answer = answer @ ''\<newline>'' @ r1;
          (r2, evs2) = getGeneralTFBestPractices e allResourcesFromFiles;
          answer = answer @ ''\<newline>'' @ r2;
          (r3, evs3) = getImpervaNewFeaturesSuggestions e d allResourcesFromFiles docs;
          answer = answer @ ''\<newline>'' @ r3
      in (answer, evs1 @ evs2 @ evs3))"

text \<open>
  \<open>runDiagnosticsParallel\<close> starts four goroutines, named here in the order of their
  \<open>go\<close> statements. Each sends its result on a channel of capacity 4, so no send blocks;
  after \<open>wg.Wait()\<close> the channel is closed and drained, which yields the results in the order
  of the sends. That order is not fixed by the program: it is the parameter \<open>completion\<close>, a
  list of the four goroutines in the order in which they send. A goroutine's agent call and its
  send are taken as one step.
\<close>

datatype goroutine =
    MissingResources
  | GeneralTFBestPractices
  | ImpervaResourceReplaceSuggestions
  | ImpervaNewFeaturesSuggestions

definition go_statements :: "goroutine list" where
  "go_statements =
     [MissingResources, GeneralTFBestPractices, ImpervaResourceReplaceSuggestions,
      ImpervaNewFeaturesSuggestions]"

fun run_goroutine ::
  "env \<Rightarrow> ResourceData \<Rightarrow> TfResource list \<Rightarrow> string \<Rightarrow> string \<Rightarrow> goroutine \<Rightarrow> string \<times> event list"
  where
  "run_goroutine e d resources docs files MissingResources =
     getMissingResources e d resources"
| "run_goroutine e d resources docs files GeneralTFBestPractices =
     getGeneralTFBestPractices e files"
| "run_goroutine e d resources docs files ImpervaResourceReplaceSuggestions =
     getImpervaResourceReplaceSuggestions e d files docs"
| "run_goroutine e d resources docs files ImpervaNewFeaturesSuggestions =
     getImpervaNewFeaturesSuggestions e d files docs"

text \<open>The sends \<open>results <- r\<close> in completion order; the first component is the channel buffer.\<close>

fun fan_out ::
  "(goroutine \<Rightarrow> string \<times> event list) \<Rightarrow> goroutine list \<Rightarrow> string list \<times> event list \<Rightarrow>
   string list \<times> event list" where
  "fan_out run [] (results, evs) = (results, evs)"
| "fan_out run (g # gs) (results, evs) =
     (let (r, ev) = run g in fan_out run gs (results @ [r], evs @ ev))"

definition runDiagnosticsParallel ::
  "env \<Rightarrow> ResourceData \<Rightarrow> TfResource list \<Rightarrow> string \<Rightarrow> string \<Rightarrow> goroutine list \<Rightarrow>
   string \<times> event list" where
  "runDiagnosticsParallel e d resources docs allResourcesFromFiles completion =
     (let (results, evs) =
            fan_out (run_goroutine e d resources docs allResourcesFromFiles) completion ([], []);
          answers = results
      in (strings_Join answers ''\<newline>'', evs))"

subsection \<open>Report emitter\<close>

definition createResponse :: "ResourceData \<Rightarrow> string \<Rightarrow> Diagnostic list \<times> event list" where
  "createResponse d answer =
     (let diags = [];
          diags = diags @ [\<lparr>Severity = Warning, Summary = ''Best Practice Suggestion'',
                            Detail = answer\<rparr>]
      in (diags, [Print answer]))"

text \<open>\<open>strings.ReplaceAll\<close> with a one-byte pattern, as \<open>escapeBraces\<close> uses it twice.\<close>

definition ReplaceAll_char :: "string \<Rightarrow> char \<Rightarrow> string \<Rightarrow> string" where
  "ReplaceAll_char s old new = concat (map (\<lambda>c. if c = old then new else [c]) s)"

definition escapeBraces :: "string \<Rightarrow> string" where
  "escapeBraces answer =
     (let answer = ReplaceAll_char answer (CHR ''{'') ''{{'';
          answer = ReplaceAll_char answer (CHR ''}'') ''}}''
      in answer)"

definition getHtmlContent :: "env \<Rightarrow> ResourceData \<Rightarrow> string \<Rightarrow> string \<times> event list" where
  "getHtmlContent e d finalAnswer =
     (let question = getHtmlContent_format @ finalAnswer;
          (answer, _) = queryAgent e question
      in (answer, [QueryAgent question]))"

definition saveHtmlToFile :: "env \<Rightarrow> ResourceData \<Rightarrow> string \<Rightarrow> string \<times> event list" where
  "saveHtmlToFile e d content =
     (let executionDir = execution_dir d;
          executionDir =
            (if executionDir = '''' then (case os_Getwd e of Inl err \<Rightarrow> '''' | Inr cwd \<Rightarrow> cwd)
             else executionDir);
          filePath = filepath_Join e executionDir ''llm_suggestion.html''
      in case ioutil_WriteFile e filePath content of
           Some err \<Rightarrow>
             (''Failed to save HTML file'',
              [WriteFile filePath content, LogPrintf ''Failed to write HTML file: %v'' [ArgError err]])
         | None \<Rightarrow> (''file://'' @ filePath, [WriteFile filePath content]))"

definition getAiAnswer :: "string \<Rightarrow> string" where
  "getAiAnswer answer = getAiAnswer_banner @ answer"

definition createHtmlReport ::
  "env \<Rightarrow> ResourceData \<Rightarrow> string \<Rightarrow> Diagnostic list \<times> event list" where
  "createHtmlReport e d finalAnswer =
     (let diags = [];
          answer = escapeBraces finalAnswer;
          (htmlFile, evs1) = getHtmlContent e d answer;
          (link, evs2) = saveHtmlToFile e d htmlFile;
          answerWithImage = getAiAnswer link;
          diags = diags @ [\<lparr>Severity = Warning, Summary = ''Best Practice Suggestion'',
                            Detail = answerWithImage\<rparr>]
      in (diags, evs1 @ evs2 @ [Print htmlFile]))"

subsection \<open>The advisory cycle\<close>

definition getLLMSuggestions ::
  "env \<Rightarrow> ResourceData \<Rightarrow> (fatal + Diagnostic list) \<times> event list" where
  "getLLMSuggestions e d =
     (case os_Getwd e of
        Inl err \<Rightarrow>
          (Inl (OsExit 1), [LogFatalf ''Failed to get current working directory: %v'' [ArgError err]])
      | Inr cwd \<Rightarrow>
          (let evs0 = [LogPrintf cwd []];
               dir = execution_dir d;
               (allResourcesFromState, evs1) =
                 getAllResourcesFromState e (dir @ ''terraform.tfstate'');
               evs2 = map (\<lambda>res. LogPrintf ''Resource: %s\<newline>'' [ArgAttributes res])
                          allResourcesFromState;
               (resources, evs3) = getAllResourcesTypeAndId e (dir @ ''terraform.tfstate'');
               evs4 = map (\<lambda>res. LogPrintf ''Resource Type: %s, ID: %s\<newline>''
                                     [ArgString (tf_Type res), ArgString (tf_Id res)])
                          resources;
               ((allResourcesFromFiles, _), evs5) = getAllResourcesFromTfFiles e dir;
               evs6 = [LogPrintf ''Resource from file: %s\<newline>'' [ArgString allResourcesFromFiles]];
               ((docs, _), evs7) = readAndConcatWebsiteFiles e ''website'';
               (rowAnswer, evs8) = runDiagnostics e d resources docs allResourcesFromFiles;
               (diags, evs9) = createResponse d rowAnswer
           in (Inr diags,
               evs0 @ evs1 @ evs2 @ evs3 @ evs4 @ evs5 @ evs6 @ evs7 @ evs8 @ evs9)))"


subsection \<open>Notions used to state the properties\<close>

text \<open>The string-typed \<open>id\<close> attribute of an instance, if it has one.\<close>

definition string_id :: "state_instance \<Rightarrow> string option" where
  "string_id instance =
     (case Attributes instance ''id'' of Some (JString idStr) \<Rightarrow> Some idStr | _ \<Rightarrow> None)"

text \<open>
  The inventory as the specification words it: one record \<open>{type, id}\<close> for each instance
  whose \<open>id\<close> attribute is a string, in the order of the snapshot, and nothing else.
\<close>

definition collectFromState_spec :: "tfstate \<Rightarrow> TfResource list" where
  "collectFromState_spec state =
     concat (map (\<lambda>resource.
                    map (\<lambda>idStr. \<lparr>tf_Type = rs_Type resource, tf_Id = idStr\<rparr>)
                        (List.map_filter string_id (Instances resource)))
                 (Resources state))"

text \<open>
  The raw configuration text as the specification words it: the files found by the glob (none
  when the glob fails), in that order, the unreadable ones left out, each content followed by
  a newline.
\<close>

definition discovered_files :: "env \<Rightarrow> string \<Rightarrow> string list" where
  "discovered_files e dir =
     (case filepath_Glob e (filepath_Join e dir ''*.tf'') of Inl err \<Rightarrow> [] | Inr files \<Rightarrow> files)"

definition readable :: "env \<Rightarrow> string \<Rightarrow> bool" where
  "readable e file = (case ioutil_ReadFile e file of Inl err \<Rightarrow> False | Inr src \<Rightarrow> True)"

definition content_of :: "env \<Rightarrow> string \<Rightarrow> string" where
  "content_of e file = (case ioutil_ReadFile e file of Inl err \<Rightarrow> [] | Inr src \<Rightarrow> src)"

definition collectRawConfiguration_spec :: "env \<Rightarrow> string \<Rightarrow> string" where
  "collectRawConfiguration_spec e dir =
     concat (map (\<lambda>file. content_of e file @ ''\<newline>'')
                 (filter (readable e) (discovered_files e dir)))"

text \<open>What one pass of the loop over the files adds for a file.\<close>

definition file_text :: "env \<Rightarrow> string \<Rightarrow> string" where
  "file_text e file =
     (case ioutil_ReadFile e file of Inl err \<Rightarrow> [] | Inr src \<Rightarrow> src @ ''\<newline>'')"

text \<open>
  Paths as the operating system reads them, with the separator \<open>/\<close> and without symbolic
  links. A path is cut into components at the separators; a relative path is taken from the
  working directory of the process; empty components and \<open>.\<close> are skipped, and \<open>..\<close> steps
  back to the parent (the root is its own parent). A file lies inside a directory when the
  components of its path are those of the directory followed by one more name.
\<close>

fun split_path :: "string \<Rightarrow> string list" where
  "split_path [] = [[]]"
| "split_path (c # cs) =
     (if c = CHR ''/'' then [] # split_path cs
      else (case split_path cs of [] \<Rightarrow> [[c]] | w # ws \<Rightarrow> (c # w) # ws))"

definition last_component :: "string \<Rightarrow> string" where
  "last_component path = last (split_path path)"

definition norm_step :: "string list \<Rightarrow> string \<Rightarrow> string list" where
  "norm_step dirs c =
     (if c = [] \<or> c = ''.'' then dirs else if c = ''..'' then butlast dirs else dirs @ [c])"

definition resolve :: "string \<Rightarrow> string \<Rightarrow> string" where
  "resolve cwd path = (if prefix ''/'' path then path else cwd @ ''/'' @ path)"

definition path_components :: "string \<Rightarrow> string \<Rightarrow> string list" where
  "path_components cwd path = foldl norm_step [] (split_path (resolve cwd path))"

definition inside_directory :: "string \<Rightarrow> string \<Rightarrow> string \<Rightarrow> bool" where
  "inside_directory cwd dir path =
     (let cp = path_components cwd path in cp \<noteq> [] \<and> butlast cp = path_components cwd dir)"

fun is_OsOpen :: "event \<Rightarrow> bool" where
  "is_OsOpen (OsOpen p) = True"
| "is_OsOpen ev = False"

text \<open>The inputs one advisory cycle collects, and the report it aggregates from them.\<close>

definition statePath :: "ResourceData \<Rightarrow> string" where
  "statePath d = execution_dir d @ ''terraform.tfstate''"

definition cycle_resources :: "env \<Rightarrow> ResourceData \<Rightarrow> TfResource list" where
  "cycle_resources e d = fst (getAllResourcesTypeAndId e (statePath d))"

definition cycle_files :: "env \<Rightarrow> ResourceData \<Rightarrow> string" where
  "cycle_files e d = fst (fst (getAllResourcesFromTfFiles e (execution_dir d)))"

definition cycle_docs :: "env \<Rightarrow> string" where
  "cycle_docs e = fst (fst (readAndConcatWebsiteFiles e ''website''))"

definition cycle_report :: "env \<Rightarrow> ResourceData \<Rightarrow> string" where
  "cycle_report e d =
     fst (runDiagnostics e d (cycle_resources e d) (cycle_docs e) (cycle_files e d))"

text \<open>
  The environment in which the agent call for the prompt \<open>q\<close> fails: it returns the error
  \<open>err\<close> together with the text \<open>partial\<close>. Everything else is as in \<open>e\<close>.
\<close>

definition with_failing_query :: "env \<Rightarrow> string \<Rightarrow> string \<Rightarrow> error \<Rightarrow> env" where
  "with_failing_query e q partial err = e\<lparr>queryAgent := (queryAgent e)(q := (partial, Some err))\<rparr>"

text \<open>
  The rendered-document path: the document the agent returns for the aggregated text, and the
  file it is written to.
\<close>

definition html_document :: "env \<Rightarrow> string \<Rightarrow> string" where
  "html_document e finalAnswer =
     fst (queryAgent e (getHtmlContent_format @ escapeBraces finalAnswer))"

definition html_path :: "env \<Rightarrow> ResourceData \<Rightarrow> string" where
  "html_path e d =
     filepath_Join e
       (if execution_dir d = '''' then (case os_Getwd e of Inl err \<Rightarrow> '''' | Inr cwd \<Rightarrow> cwd)
        else execution_dir d)
       ''llm_suggestion.html''"

text \<open>
  The fixed part of the prompt of \<open>getMissingResources\<close>: everything before the printed
  inventory.
\<close>

definition getMissingResources_instructions :: string where
  "getMissingResources_instructions =
     missing_q1 @ missing_q2 @ missing_q3 @ missing_q4 @ missing_q5 @ missing_q6 @ missing_q7 @
     missing_q8 @ missing_q9 @ missing_q10 @ missing_q11"

text \<open>The text each task contributes, whatever error the agent call returned with it.\<close>

definition task_text ::
  "env \<Rightarrow> ResourceData \<Rightarrow> TfResource list \<Rightarrow> string \<Rightarrow> string \<Rightarrow> goroutine \<Rightarrow> string" where
  "task_text e d resources docs files g = fst (run_goroutine e d resources docs files g)"

subsection \<open>A concrete environment\<close>

text \<open>
  A small environment for running the definitions: a state snapshot with three instances of one
  resource (a string \<open>id\<close>, no \<open>id\<close>, a numeric \<open>id\<close>), a directory with three configuration
  files of which one cannot be read, and an agent that tells the prompts apart by their first
  twelve bytes and always succeeds. Its \<open>filepath_Join\<close> agrees with Go's on the clean paths used here, and its
  \<open>filepath_Glob\<close> rejects the malformed pattern \<open>[/*.tf\<close> with \<open>ErrBadPattern\<close>, as Go's does.
\<close>

definition example_state :: tfstate where
  "example_state =
     \<lparr>Resources =
        [\<lparr>rs_Type = ''incapsula_site'',
          Instances =
            [\<lparr>Attributes = [''id'' \<mapsto> JString ''42'', ''domain'' \<mapsto> JString ''a.example.com'']\<rparr>,
             \<lparr>Attributes = [''domain'' \<mapsto> JString ''b.example.com'']\<rparr>,
             \<lparr>Attributes = [''id'' \<mapsto> JNumber 7]\<rparr>]\<rparr>]\<rparr>"

definition example_env :: env where
  "example_env =
     \<lparr>os_Getwd = Inr ''/work'',
      os_Open = (\<lambda>p. None),
      os_Close = (\<lambda>p. None),
      json_Decode = (\<lambda>p. Inr example_state),
      filepath_Join = (\<lambda>dir name. if dir = [] then name else dir @ ''/'' @ name),
      filepath_Glob =
        (\<lambda>pattern.
           if pattern = ''[/*.tf'' then Inl (Err ''syntax error in pattern'')
           else if pattern = ''/work/site/*.tf''
           then Inr [''/work/site/main.tf'', ''/work/site/secret.tf'', ''/work/site/vars.tf'']
           else Inr []),
      filepath_WalkDir = (\<lambda>r. [WalkEntry ''website'' True None]),
      ioutil_ReadFile =
        (\<lambda>p. if p = ''/work/site/main.tf'' then Inr ''resource A''
             else if p = ''/work/site/vars.tf'' then Inr ''variable B''
             else Inl (Err ''permission denied'')),
      ioutil_WriteFile = (\<lambda>p content. None),
      queryAgent =
        (\<lambda>q. if take 12 q = ''You are an e'' then (''best-practices advice'', None)
             else if take 12 q = ''\<newline>You are an '' then (''replacement advice'', None)
             else if take 12 q = ''You are an i'' then (''new-features advice'', None)
             else (''<html>report</html>'', None)),
      answerWithTools = (\<lambda>q i k. (''missing-resources advice'', None))\<rparr>"

definition example_d :: ResourceData where
  "example_d = \<lparr>execution_dir = ''/work/site'', api_id = ''id'', api_key = ''key''\<rparr>"

text \<open>The same environment with a state snapshot that cannot be opened, or decoded.\<close>

definition unopenable_env :: env where
  "unopenable_env = example_env\<lparr>os_Open := (\<lambda>p. Some (Err ''no such file or directory''))\<rparr>"

definition undecodable_env :: env where
  "undecodable_env = example_env\<lparr>json_Decode := (\<lambda>p. Inl (Err ''unexpected end of JSON input''))\<rparr>"

text \<open>The same environment in a process whose working directory cannot be determined.\<close>

definition lost_env :: env where
  "lost_env = example_env\<lparr>os_Getwd := Inl (Err ''getwd: no such file or directory'')\<rparr>"

text \<open>The same environment with a directory in which no file can be written.\<close>

definition unwritable_env :: env where
  "unwritable_env = example_env\<lparr>ioutil_WriteFile := (\<lambda>p content. Some (Err ''permission denied''))\<rparr>"

text \<open>The example configuration without an \<open>execution_dir\<close>.\<close>

definition cwd_d :: ResourceData where
  "cwd_d = example_d\<lparr>execution_dir := ''''\<rparr>"

text \<open>The example configuration with the execution directory \<open>.\<close>.\<close>

definition dot_d :: ResourceData where
  "dot_d = example_d\<lparr>execution_dir := ''.''\<rparr>"

text \<open>
  The example configuration with an execution directory that cannot be used: the glob pattern
  built from it is malformed.
\<close>

definition unusable_d :: ResourceData where
  "unusable_d = example_d\<lparr>execution_dir := ''[''\<rparr>"


section \<open>Properties\<close>

subsection \<open>Loops as list functions\<close>

lemma instances_loop_acc:
  "instances_loop ty insts acc =
   acc @ map (\<lambda>idStr. \<lparr>tf_Type = ty, tf_Id = idStr\<rparr>) (List.map_filter string_id insts)"
  by (induction insts arbitrary: acc)
     (simp_all add: List.map_filter_simps string_id_def split: option.splits jvalue.splits)

lemma resources_loop_acc:
  "resources_loop rs acc =
   acc @ concat (map (\<lambda>resource.
                    map (\<lambda>idStr. \<lparr>tf_Type = rs_Type resource, tf_Id = idStr\<rparr>)
                        (List.map_filter string_id (Instances resource))) rs)"
  by (induction rs arbitrary: acc) (simp_all add: instances_loop_acc)

lemma tf_files_loop_fst:
  "fst (tf_files_loop e files content) = content @ concat (map (file_text e) files)"
  by (induction files arbitrary: content)
     (simp_all add: file_text_def split_beta split: sum.splits)

lemma tf_files_loop_snd: "snd (tf_files_loop e files content) = map ReadFile files"
  by (induction files arbitrary: content) (simp_all add: split_beta split: sum.splits)

lemma walk_loop_events: "set (snd (walk_loop e entries builder)) \<subseteq> range ReadFile"
proof (induction entries arbitrary: builder)
  case Nil
  show ?case by simp
next
  case (Cons entry entries)
  obtain path isDir err where entry: "entry = WalkEntry path isDir err"
    by (cases entry)
  show ?case
    using Cons.IH by (auto simp: entry split_beta split: option.splits sum.splits)
qed

lemma fan_out_acc:
  "fan_out run gs (results, evs) =
   (results @ map (\<lambda>g. fst (run g)) gs, evs @ concat (map (\<lambda>g. snd (run g)) gs))"
  by (induction gs arbitrary: results evs) (simp_all add: split_beta)

subsection \<open>Inventory collector\<close>

lemma length_map_filter:
  "length (List.map_filter f xs) = length (filter (\<lambda>x. f x \<noteq> None) xs)"
  by (simp add: List.map_filter_def)

text \<open>
  Claim C3. For a state snapshot that opens and decodes, \<open>getAllResourcesTypeAndId\<close> returns
  exactly one record \<open>{type, id}\<close> for each instance whose attributes hold a string under the
  key \<open>id\<close>, in the order of the snapshot; an instance without \<open>id\<close>, or with an \<open>id\<close> that is
  not a string, gives no record, and there are no other records.
\<close>

theorem getAllResourcesTypeAndId_collects:
  assumes "os_Open e p = None" and "json_Decode e p = Inr state"
  shows "fst (getAllResourcesTypeAndId e p) = collectFromState_spec state \<and>
         length (fst (getAllResourcesTypeAndId e p)) =
           (\<Sum>resource\<leftarrow>Resources state.
              length (filter (\<lambda>instance. string_id instance \<noteq> None) (Instances resource)))"
proof -
  have eq: "fst (getAllResourcesTypeAndId e p) = collectFromState_spec state"
    using assms
    by (simp add: getAllResourcesTypeAndId_def collectFromState_spec_def resources_loop_acc)
  have "length (collectFromState_spec state) =
        (\<Sum>resource\<leftarrow>Resources state.
           length (filter (\<lambda>instance. string_id instance \<noteq> None) (Instances resource)))"
    by (simp add: collectFromState_spec_def length_concat comp_def length_map_filter)
  with eq show ?thesis by simp
qed

theorem getAllResourcesTypeAndId_collects_witness:
  "os_Open example_env ''/work/siteterraform.tfstate'' = None \<and>
   json_Decode example_env ''/work/siteterraform.tfstate'' = Inr example_state \<and>
   fst (getAllResourcesTypeAndId example_env ''/work/siteterraform.tfstate'') =
     [\<lparr>tf_Type = ''incapsula_site'', tf_Id = ''42''\<rparr>] \<and>
   length (fst (getAllResourcesTypeAndId example_env ''/work/siteterraform.tfstate'')) = 1"
proof -
  have o: "os_Open example_env ''/work/siteterraform.tfstate'' = None"
    by (simp add: example_env_def)
  have j: "json_Decode example_env ''/work/siteterraform.tfstate'' = Inr example_state"
    by (simp add: example_env_def)
  have s: "collectFromState_spec example_state = [\<lparr>tf_Type = ''incapsula_site'', tf_Id = ''42''\<rparr>]"
    by (simp add: collectFromState_spec_def example_state_def List.map_filter_simps string_id_def)
  show ?thesis
    using getAllResourcesTypeAndId_collects [OF o j] o j s by simp
qed

subsection \<open>Report emitter\<close>

text \<open>
  Claim C9. \<open>createResponse\<close> is defined for every text (the empty one, a long one, any bytes):
  it returns exactly one diagnostic, of warning severity, whose detail is the text given, and
  its only effect is to print that text.
\<close>

theorem createResponse_one_warning:
  "fst (createResponse d answer) =
     [\<lparr>Severity = Warning, Summary = ''Best Practice Suggestion'', Detail = answer\<rparr>] \<and>
   length (fst (createResponse d answer)) = 1 \<and>
   snd (createResponse d answer) = [Print answer]"
  by (simp add: createResponse_def)


subsection \<open>Raw configuration text\<close>

lemma concat_file_text:
  "concat (map (file_text e) files) =
   concat (map (\<lambda>file. content_of e file @ ''\<newline>'') (filter (readable e) files))"
  by (induction files) (simp_all add: file_text_def content_of_def readable_def split: sum.splits)

lemma collectRawConfiguration_spec_file_text:
  "collectRawConfiguration_spec e dir = concat (map (file_text e) (discovered_files e dir))"
  by (simp add: collectRawConfiguration_spec_def concat_file_text)

lemma getAllResourcesFromTfFiles_text:
  "fst (fst (getAllResourcesFromTfFiles e dir)) = collectRawConfiguration_spec e dir"
proof (cases "filepath_Glob e (filepath_Join e dir ''*.tf'')")
  case (Inl err)
  then show ?thesis
    by (simp add: getAllResourcesFromTfFiles_def collectRawConfiguration_spec_def
        discovered_files_def)
next
  case (Inr files)
  have "fst (fst (getAllResourcesFromTfFiles e dir)) = fst (tf_files_loop e files '''')"
    using Inr by (simp add: getAllResourcesFromTfFiles_def split_beta)
  also have "\<dots> = concat (map (file_text e) files)"
    by (simp add: tf_files_loop_fst)
  finally show ?thesis
    using Inr
    by (simp add: collectRawConfiguration_spec_file_text discovered_files_def)
qed



lemma example_discovered:
  "discovered_files example_env ''/work/site'' =
     [''/work/site/main.tf'', ''/work/site/secret.tf'', ''/work/site/vars.tf'']"
  by (simp add: discovered_files_def example_env_def)

lemma example_env_Getwd_update [simp]:
  "discovered_files (example_env\<lparr>os_Getwd := x\<rparr>) dir = discovered_files example_env dir"
  "ioutil_ReadFile (example_env\<lparr>os_Getwd := x\<rparr>) = ioutil_ReadFile example_env"
  by (simp_all add: discovered_files_def)


subsection \<open>Failures of the collectors\<close>

text \<open>
  Claim C4, as amended. The two readers of the state snapshot return no error value: when the
  file cannot be opened, or its content cannot be decoded, they return the empty inventory and
  log the error. \<open>getAllResourcesFromTfFiles\<close> does return an error to its caller, together
  with the empty text, exactly when \<open>filepath.Glob\<close> rejects the pattern built from the
  directory; in every other case its error is nil.
\<close>

theorem collectors_degrade:
  "(os_Open e p = Some err1 \<longrightarrow>
      getAllResourcesTypeAndId e p =
        ([], [OsOpen p, LogPrintf ''[Error] Unable to open state file: %v'' [ArgError err1]]) \<and>
      getAllResourcesFromState e p =
        ([], [OsOpen p, LogPrintf ''[Error] Unable to open state file: %v'' [ArgError err1]])) \<and>
   (os_Open e p = None \<and> json_Decode e p = Inl err2 \<longrightarrow>
      fst (getAllResourcesTypeAndId e p) = [] \<and>
      fst (getAllResourcesFromState e p) = [] \<and>
      LogPrintf ''[Error] Unable to decode state file: %v'' [ArgError err2]
        \<in> set (snd (getAllResourcesTypeAndId e p)) \<and>
      LogPrintf ''[Error] Unable to decode state file: %v'' [ArgError err2]
        \<in> set (snd (getAllResourcesFromState e p))) \<and>
   (filepath_Glob e (filepath_Join e dir ''*.tf'') = Inl err3 \<longrightarrow>
      fst (getAllResourcesFromTfFiles e dir) = ('''', Some err3)) \<and>
   (filepath_Glob e (filepath_Join e dir ''*.tf'') = Inr files \<longrightarrow>
      snd (fst (getAllResourcesFromTfFiles e dir)) = None)"
proof (intro conjI impI)
  assume "os_Open e p = Some err1"
  then show "getAllResourcesTypeAndId e p =
        ([], [OsOpen p, LogPrintf ''[Error] Unable to open state file: %v'' [ArgError err1]])"
    and "getAllResourcesFromState e p =
        ([], [OsOpen p, LogPrintf ''[Error] Unable to open state file: %v'' [ArgError err1]])"
    by (simp_all add: getAllResourcesTypeAndId_def getAllResourcesFromState_def)
next
  assume a: "os_Open e p = None \<and> json_Decode e p = Inl err2"
  then show "fst (getAllResourcesTypeAndId e p) = []"
    and "fst (getAllResourcesFromState e p) = []"
    and "LogPrintf ''[Error] Unable to decode state file: %v'' [ArgError err2]
        \<in> set (snd (getAllResourcesTypeAndId e p))"
    and "LogPrintf ''[Error] Unable to decode state file: %v'' [ArgError err2]
        \<in> set (snd (getAllResourcesFromState e p))"
    by (simp_all add: getAllResourcesTypeAndId_def getAllResourcesFromState_def)
next
  assume "filepath_Glob e (filepath_Join e dir ''*.tf'') = Inl err3"
  then show "fst (getAllResourcesFromTfFiles e dir) = ('''', Some err3)"
    by (simp add: getAllResourcesFromTfFiles_def)
next
  assume "filepath_Glob e (filepath_Join e dir ''*.tf'') = Inr files"
  then show "snd (fst (getAllResourcesFromTfFiles e dir)) = None"
    by (simp add: getAllResourcesFromTfFiles_def split_beta)
qed

text \<open>
  The claim as stated fails: for the directory \<open>[\<close> the pattern is \<open>[/*.tf\<close>, which
  \<open>filepath.Glob\<close> rejects, and the collector returns that error to its caller.
\<close>

theorem collectors_degrade_counterexample:
  "getAllResourcesFromTfFiles example_env ''['' =
     (('''', Some (Err ''syntax error in pattern'')), [Glob ''[/*.tf''])"
  by (simp add: getAllResourcesFromTfFiles_def example_env_def)

theorem collectors_degrade_witness:
  "os_Open unopenable_env ''terraform.tfstate'' = Some (Err ''no such file or directory'') \<and>
   fst (getAllResourcesTypeAndId unopenable_env ''terraform.tfstate'') = [] \<and>
   fst (getAllResourcesFromState unopenable_env ''terraform.tfstate'') = [] \<and>
   os_Open undecodable_env ''terraform.tfstate'' = None \<and>
   json_Decode undecodable_env ''terraform.tfstate'' = Inl (Err ''unexpected end of JSON input'') \<and>
   fst (getAllResourcesTypeAndId undecodable_env ''terraform.tfstate'') = [] \<and>
   fst (getAllResourcesFromState undecodable_env ''terraform.tfstate'') = [] \<and>
   filepath_Glob example_env (filepath_Join example_env ''['' ''*.tf'') =
     Inl (Err ''syntax error in pattern'') \<and>
   fst (getAllResourcesFromTfFiles example_env ''['') = ('''', Some (Err ''syntax error in pattern'')) \<and>
   filepath_Glob example_env (filepath_Join example_env ''/work/site'' ''*.tf'') =
     Inr [''/work/site/main.tf'', ''/work/site/secret.tf'', ''/work/site/vars.tf''] \<and>
   snd (fst (getAllResourcesFromTfFiles example_env ''/work/site'')) = None"
proof -
  have o: "os_Open unopenable_env ''terraform.tfstate'' = Some (Err ''no such file or directory'')"
    by (simp add: unopenable_env_def)
  have d: "os_Open undecodable_env ''terraform.tfstate'' = None"
    "json_Decode undecodable_env ''terraform.tfstate'' = Inl (Err ''unexpected end of JSON input'')"
    by (simp_all add: undecodable_env_def example_env_def)
  have g1: "filepath_Glob example_env (filepath_Join example_env ''['' ''*.tf'') =
     Inl (Err ''syntax error in pattern'')"
    by (simp add: example_env_def)
  have g2: "filepath_Glob example_env (filepath_Join example_env ''/work/site'' ''*.tf'') =
     Inr [''/work/site/main.tf'', ''/work/site/secret.tf'', ''/work/site/vars.tf'']"
    by (simp add: example_env_def)
  note t1 = collectors_degrade [of unopenable_env "''terraform.tfstate''"
      "Err ''no such file or directory''" "Err ''x''" "''[''" "Err ''x''" "[]"]
  note t2 = collectors_degrade [of undecodable_env "''terraform.tfstate''"
      "Err ''x''" "Err ''unexpected end of JSON input''" "''[''" "Err ''x''" "[]"]
  note t3 = collectors_degrade [of example_env "''terraform.tfstate''"
      "Err ''x''" "Err ''x''" "''[''" "Err ''syntax error in pattern''" "[]"]
  note t4 = collectors_degrade [of example_env "''terraform.tfstate''"
      "Err ''x''" "Err ''x''" "''/work/site''" "Err ''x''"
      "[''/work/site/main.tf'', ''/work/site/secret.tf'', ''/work/site/vars.tf'']"]
  have a: "fst (getAllResourcesTypeAndId unopenable_env ''terraform.tfstate'') = []"
    "fst (getAllResourcesFromState unopenable_env ''terraform.tfstate'') = []"
    using t1 o by simp_all
  have b: "fst (getAllResourcesTypeAndId undecodable_env ''terraform.tfstate'') = []"
    "fst (getAllResourcesFromState undecodable_env ''terraform.tfstate'') = []"
    using t2 d by blast+
  have c: "fst (getAllResourcesFromTfFiles example_env ''['') = ('''', Some (Err ''syntax error in pattern''))"
    using t3 g1 by blast
  have c': "snd (fst (getAllResourcesFromTfFiles example_env ''/work/site'')) = None"
    using t4 g2 by blast
  show ?thesis
    using o d g1 g2 a b c c' by (simp only: simp_thms)
qed

subsection \<open>Tasks and orchestration\<close>

lemma task_text_simps:
  "task_text e d resources docs files MissingResources =
     fst (answerWithTools e (getMissingResources_question resources) (api_id d) (api_key d))"
  "task_text e d resources docs files GeneralTFBestPractices =
     fst (queryAgent e (getGeneralTFBestPractices_format @ files))"
  "task_text e d resources docs files ImpervaResourceReplaceSuggestions =
     fst (queryAgent e (getImpervaResourceReplaceSuggestions_format @ files))"
  "task_text e d resources docs files ImpervaNewFeaturesSuggestions =
     fst (queryAgent e
       (getImpervaNewFeaturesSuggestions_format_0 @ docs @
        getImpervaNewFeaturesSuggestions_format_1 @ getNewFeatures @
        getImpervaNewFeaturesSuggestions_format_2 @ files @
        getImpervaNewFeaturesSuggestions_format_3))"
  by (simp_all add: task_text_def getMissingResources_def getGeneralTFBestPractices_def
      getImpervaResourceReplaceSuggestions_def getImpervaNewFeaturesSuggestions_def split_beta
      Let_def)

lemma task_events:
  "snd (getMissingResources e d resources) =
     [AnswerWithTools (getMissingResources_question resources) (api_id d) (api_key d)]"
  "snd (getGeneralTFBestPractices e files) =
     [QueryAgent (getGeneralTFBestPractices_format @ files)]"
  "snd (getImpervaResourceReplaceSuggestions e d files docs) =
     [QueryAgent (getImpervaResourceReplaceSuggestions_format @ files)]"
  "snd (getImpervaNewFeaturesSuggestions e d files docs) =
     [QueryAgent
       (getImpervaNewFeaturesSuggestions_format_0 @ docs @
        getImpervaNewFeaturesSuggestions_format_1 @ getNewFeatures @
        getImpervaNewFeaturesSuggestions_format_2 @ files @
        getImpervaNewFeaturesSuggestions_format_3)]"
  by (simp_all add: getMissingResources_def getGeneralTFBestPractices_def
      getImpervaResourceReplaceSuggestions_def getImpervaNewFeaturesSuggestions_def split_beta
      Let_def)

lemma run_goroutine_one_call:
  "length (filter is_agent_call (snd (run_goroutine e d resources docs files g))) = 1"
  by (cases g) (simp_all add: task_events)

lemma runDiagnostics_fst:
  "fst (runDiagnostics e d resources docs files) =
     ''\<newline>'' @ task_text e d resources docs files MissingResources @
     ''\<newline>'' @ task_text e d resources docs files GeneralTFBestPractices @
     ''\<newline>'' @ task_text e d resources docs files ImpervaNewFeaturesSuggestions"
  by (simp add: runDiagnostics_def task_text_def split_beta Let_def)

lemma runDiagnostics_snd:
  "snd (runDiagnostics e d resources docs files) =
     snd (run_goroutine e d resources docs files MissingResources) @
     snd (run_goroutine e d resources docs files GeneralTFBestPractices) @
     snd (run_goroutine e d resources docs files ImpervaNewFeaturesSuggestions)"
  by (simp add: runDiagnostics_def split_beta Let_def)

lemma runDiagnosticsParallel_fst:
  "fst (runDiagnosticsParallel e d resources docs files completion) =
     strings_Join (map (task_text e d resources docs files) completion) ''\<newline>''"
  by (simp add: runDiagnosticsParallel_def fan_out_acc task_text_def [abs_def])

lemma runDiagnosticsParallel_snd:
  "snd (runDiagnosticsParallel e d resources docs files completion) =
     concat (map (\<lambda>g. snd (run_goroutine e d resources docs files g)) completion)"
  by (simp add: runDiagnosticsParallel_def fan_out_acc)

lemma agent_calls_concat:
  "length (filter is_agent_call
     (concat (map (\<lambda>g. snd (run_goroutine e d resources docs files g)) gs))) = length gs"
  by (induction gs) (simp_all add: run_goroutine_one_call)

lemma getLLMSuggestions_fatal:
  "os_Getwd e = Inl err \<Longrightarrow>
   getLLMSuggestions e d =
     (Inl (OsExit 1), [LogFatalf ''Failed to get current working directory: %v'' [ArgError err]])"
  by (simp add: getLLMSuggestions_def)

lemma getLLMSuggestions_fst:
  "os_Getwd e = Inr cwd \<Longrightarrow>
   fst (getLLMSuggestions e d) =
     Inr [\<lparr>Severity = Warning, Summary = ''Best Practice Suggestion'',
           Detail = cycle_report e d\<rparr>]"
  by (simp add: getLLMSuggestions_def cycle_report_def cycle_resources_def cycle_docs_def
      cycle_files_def statePath_def createResponse_def split_beta Let_def)

lemma getLLMSuggestions_snd:
  "os_Getwd e = Inr cwd \<Longrightarrow>
   snd (getLLMSuggestions e d) =
     [LogPrintf cwd []] @
     snd (getAllResourcesFromState e (statePath d)) @
     map (\<lambda>res. LogPrintf ''Resource: %s\<newline>'' [ArgAttributes res])
         (fst (getAllResourcesFromState e (statePath d))) @
     snd (getAllResourcesTypeAndId e (statePath d)) @
     map (\<lambda>res. LogPrintf ''Resource Type: %s, ID: %s\<newline>''
                   [ArgString (tf_Type res), ArgString (tf_Id res)])
         (cycle_resources e d) @
     snd (getAllResourcesFromTfFiles e (execution_dir d)) @
     [LogPrintf ''Resource from file: %s\<newline>'' [ArgString (cycle_files e d)]] @
     snd (readAndConcatWebsiteFiles e ''website'') @
     snd (runDiagnostics e d (cycle_resources e d) (cycle_docs e) (cycle_files e d)) @
     [Print (cycle_report e d)]"
  by (simp add: getLLMSuggestions_def cycle_report_def cycle_resources_def cycle_docs_def
      cycle_files_def statePath_def createResponse_def split_beta Let_def)

subsection \<open>Events of one cycle\<close>

lemma state_reader_events:
  "filter is_agent_call (snd (getAllResourcesFromState e p)) = []"
  "filter is_agent_call (snd (getAllResourcesTypeAndId e p)) = []"
  "filter is_OsOpen (snd (getAllResourcesFromState e p)) = [OsOpen p]"
  "filter is_OsOpen (snd (getAllResourcesTypeAndId e p)) = [OsOpen p]"
  by (simp_all add: getAllResourcesFromState_def getAllResourcesTypeAndId_def deferred_close_def
      split: option.splits sum.splits)

lemma getAllResourcesFromTfFiles_snd:
  "snd (getAllResourcesFromTfFiles e dir) =
     Glob (filepath_Join e dir ''*.tf'') # map ReadFile (discovered_files e dir)"
  by (simp add: getAllResourcesFromTfFiles_def discovered_files_def tf_files_loop_snd split_beta
      Let_def split: sum.splits)

lemma filter_ReadFile:
  "filter is_agent_call (map ReadFile files) = []"
  "filter is_OsOpen (map ReadFile files) = []"
  by (induction files) simp_all

lemma readAndConcatWebsiteFiles_events:
  "filter is_agent_call (snd (readAndConcatWebsiteFiles e r)) = []"
  "filter is_OsOpen (snd (readAndConcatWebsiteFiles e r)) = []"
  using walk_loop_events [of e "filepath_WalkDir e r" "''''"]
  by (auto simp: readAndConcatWebsiteFiles_def split_beta filter_empty_conv)

lemma filter_LogPrintf:
  "filter is_agent_call (map (\<lambda>x. LogPrintf fmt (args x)) xs) = []"
  "filter is_OsOpen (map (\<lambda>x. LogPrintf fmt (args x)) xs) = []"
  by (induction xs) simp_all

lemma runDiagnostics_events:
  "filter is_agent_call (snd (runDiagnostics e d resources docs files)) =
     snd (runDiagnostics e d resources docs files)"
  "filter is_OsOpen (snd (runDiagnostics e d resources docs files)) = []"
  by (simp_all add: runDiagnostics_snd task_events)

lemma cycle_agent_calls:
  assumes "os_Getwd e = Inr cwd"
  shows "filter is_agent_call (snd (getLLMSuggestions e d)) =
         snd (runDiagnostics e d (cycle_resources e d) (cycle_docs e) (cycle_files e d))"
  by (simp add: getLLMSuggestions_snd [OF assms] state_reader_events
      getAllResourcesFromTfFiles_snd filter_ReadFile readAndConcatWebsiteFiles_events
      filter_LogPrintf runDiagnostics_events)

lemma cycle_opens:
  assumes "os_Getwd e = Inr cwd"
  shows "filter is_OsOpen (snd (getLLMSuggestions e d)) = [OsOpen (statePath d), OsOpen (statePath d)]"
  by (simp add: getLLMSuggestions_snd [OF assms] state_reader_events
      getAllResourcesFromTfFiles_snd filter_ReadFile readAndConcatWebsiteFiles_events
      filter_LogPrintf runDiagnostics_events)

lemma mset_parallel_events:
  assumes "mset completion = mset go_statements"
  shows "mset (concat (map f completion)) = mset (concat (map f go_statements))"
proof -
  have "mset (concat (map f xs)) = (\<Sum>x\<in>#mset xs. mset (f x))" for xs
    by (induction xs) simp_all
  then show ?thesis using assms by simp
qed

subsection \<open>The prompts begin differently\<close>

lemma prompt_heads:
  "take 12 (getMissingResources_question resources) = ''Your task is''"
  "take 12 (getGeneralTFBestPractices_format @ x) = ''You are an e''"
  "take 12 (getImpervaResourceReplaceSuggestions_format @ x) = ''\<newline>You are an ''"
  "take 12 (getImpervaNewFeaturesSuggestions_format_0 @ x) = ''You are an i''"
  "take 12 (getHtmlContent_format @ x) = ''\<newline>You are a s''"
  by (simp_all add: getMissingResources_question_def missing_q1_def
      getGeneralTFBestPractices_format_def getImpervaResourceReplaceSuggestions_format_def
      getImpervaNewFeaturesSuggestions_format_0_def getHtmlContent_format_def)

lemma best_practices_prompt_differs:
  "getGeneralTFBestPractices_format @ x \<noteq> getImpervaNewFeaturesSuggestions_format_0 @ y"
proof
  assume "getGeneralTFBestPractices_format @ x = getImpervaNewFeaturesSuggestions_format_0 @ y"
  then have "take 12 (getGeneralTFBestPractices_format @ x) =
             take 12 (getImpervaNewFeaturesSuggestions_format_0 @ y)"
    by (rule arg_cong)
  then show False
    by (simp only: prompt_heads) simp
qed

lemma replace_prompt_differs:
  "getImpervaResourceReplaceSuggestions_format @ x \<noteq> getGeneralTFBestPractices_format @ y"
  "getImpervaResourceReplaceSuggestions_format @ x \<noteq>
     getImpervaNewFeaturesSuggestions_format_0 @ y"
  "getImpervaResourceReplaceSuggestions_format \<noteq> getGeneralTFBestPractices_format"
proof -
  show a: "getImpervaResourceReplaceSuggestions_format @ x \<noteq> getGeneralTFBestPractices_format @ y"
    for x y
  proof
    assume "getImpervaResourceReplaceSuggestions_format @ x = getGeneralTFBestPractices_format @ y"
    then have "take 12 (getImpervaResourceReplaceSuggestions_format @ x) =
               take 12 (getGeneralTFBestPractices_format @ y)"
      by (rule arg_cong)
    then show False
      by (simp only: prompt_heads) simp
  qed
  show "getImpervaResourceReplaceSuggestions_format @ x \<noteq>
     getImpervaNewFeaturesSuggestions_format_0 @ y"
  proof
    assume "getImpervaResourceReplaceSuggestions_format @ x =
            getImpervaNewFeaturesSuggestions_format_0 @ y"
    then have "take 12 (getImpervaResourceReplaceSuggestions_format @ x) =
               take 12 (getImpervaNewFeaturesSuggestions_format_0 @ y)"
      by (rule arg_cong)
    then show False
      by (simp only: prompt_heads) simp
  qed
  show "getImpervaResourceReplaceSuggestions_format \<noteq> getGeneralTFBestPractices_format"
    using a [of "[]" "[]"] by simp
qed

lemma example_agent:
  "queryAgent example_env q =
     (if take 12 q = ''You are an e'' then (''best-practices advice'', None)
      else if take 12 q = ''\<newline>You are an '' then (''replacement advice'', None)
      else if take 12 q = ''You are an i'' then (''new-features advice'', None)
      else (''<html>report</html>'', None))"
  "answerWithTools example_env q i k = (''missing-resources advice'', None)"
  by (simp_all add: example_env_def)

lemma example_task_text:
  "task_text example_env d resources docs files MissingResources = ''missing-resources advice''"
  "task_text example_env d resources docs files GeneralTFBestPractices = ''best-practices advice''"
  "task_text example_env d resources docs files ImpervaResourceReplaceSuggestions =
     ''replacement advice''"
  "task_text example_env d resources docs files ImpervaNewFeaturesSuggestions =
     ''new-features advice''"
  by (simp_all only: task_text_simps example_agent prompt_heads) simp_all

subsection \<open>Orchestrator\<close>

text \<open>
  Claim C1, as amended. For fixed task texts, \<open>runDiagnosticsParallel\<close> returns the four texts
  joined by a newline in the order in which the goroutines send them, so it returns the texts in
  declaration order (diff, best practices, replace suggestions, new features) when the goroutines
  complete in that order; whatever the completion order, the texts joined are the same four.
  \<open>runDiagnostics\<close> returns a newline followed by the diff, best-practices and new-features
  texts, each two separated by a newline; it makes exactly these three agent calls and does not
  run the replace-suggestions task, which the concurrent variant does run.
\<close>

theorem orchestration_reports:
  "(mset completion = mset go_statements \<longrightarrow>
      fst (runDiagnosticsParallel e d resources docs files completion) =
        strings_Join (map (task_text e d resources docs files) completion) ''\<newline>'' \<and>
      mset (map (task_text e d resources docs files) completion) =
        mset (map (task_text e d resources docs files) go_statements)) \<and>
   fst (runDiagnosticsParallel e d resources docs files go_statements) =
     task_text e d resources docs files MissingResources @ ''\<newline>'' @
     task_text e d resources docs files GeneralTFBestPractices @ ''\<newline>'' @
     task_text e d resources docs files ImpervaResourceReplaceSuggestions @ ''\<newline>'' @
     task_text e d resources docs files ImpervaNewFeaturesSuggestions \<and>
   fst (runDiagnostics e d resources docs files) =
     ''\<newline>'' @ task_text e d resources docs files MissingResources @ ''\<newline>'' @
     task_text e d resources docs files GeneralTFBestPractices @ ''\<newline>'' @
     task_text e d resources docs files ImpervaNewFeaturesSuggestions \<and>
   snd (runDiagnostics e d resources docs files) =
     [AnswerWithTools (getMissingResources_question resources) (api_id d) (api_key d),
      QueryAgent (getGeneralTFBestPractices_format @ files),
      QueryAgent
        (getImpervaNewFeaturesSuggestions_format_0 @ docs @
         getImpervaNewFeaturesSuggestions_format_1 @ getNewFeatures @
         getImpervaNewFeaturesSuggestions_format_2 @ files @
         getImpervaNewFeaturesSuggestions_format_3)] \<and>
   QueryAgent (getImpervaResourceReplaceSuggestions_format @ files)
     \<notin> set (snd (runDiagnostics e d resources docs files)) \<and>
   QueryAgent (getImpervaResourceReplaceSuggestions_format @ files)
     \<in> set (snd (runDiagnosticsParallel e d resources docs files go_statements))"
proof (intro conjI impI)
  assume p: "mset completion = mset go_statements"
  show "fst (runDiagnosticsParallel e d resources docs files completion) =
        strings_Join (map (task_text e d resources docs files) completion) ''\<newline>''"
    by (rule runDiagnosticsParallel_fst)
  have "mset (map (task_text e d resources docs files) completion) =
        image_mset (task_text e d resources docs files) (mset completion)"
    by simp
  also have "\<dots> = image_mset (task_text e d resources docs files) (mset go_statements)"
    by (simp only: p)
  finally show "mset (map (task_text e d resources docs files) completion) =
        mset (map (task_text e d resources docs files) go_statements)"
    by simp
next
  show "fst (runDiagnosticsParallel e d resources docs files go_statements) =
     task_text e d resources docs files MissingResources @ ''\<newline>'' @
     task_text e d resources docs files GeneralTFBestPractices @ ''\<newline>'' @
     task_text e d resources docs files ImpervaResourceReplaceSuggestions @ ''\<newline>'' @
     task_text e d resources docs files ImpervaNewFeaturesSuggestions"
    by (simp add: runDiagnosticsParallel_fst go_statements_def)
next
  show "fst (runDiagnostics e d resources docs files) =
     ''\<newline>'' @ task_text e d resources docs files MissingResources @ ''\<newline>'' @
     task_text e d resources docs files GeneralTFBestPractices @ ''\<newline>'' @
     task_text e d resources docs files ImpervaNewFeaturesSuggestions"
    by (rule runDiagnostics_fst)
next
  show "snd (runDiagnostics e d resources docs files) =
     [AnswerWithTools (getMissingResources_question resources) (api_id d) (api_key d),
      QueryAgent (getGeneralTFBestPractices_format @ files),
      QueryAgent
        (getImpervaNewFeaturesSuggestions_format_0 @ docs @
         getImpervaNewFeaturesSuggestions_format_1 @ getNewFeatures @
         getImpervaNewFeaturesSuggestions_format_2 @ files @
         getImpervaNewFeaturesSuggestions_format_3)]"
    by (simp add: runDiagnostics_snd task_events)
next
  show "QueryAgent (getImpervaResourceReplaceSuggestions_format @ files)
     \<notin> set (snd (runDiagnostics e d resources docs files))"
    by (simp add: runDiagnostics_snd task_events replace_prompt_differs)
next
  show "QueryAgent (getImpervaResourceReplaceSuggestions_format @ files)
     \<in> set (snd (runDiagnosticsParallel e d resources docs files go_statements))"
    by (simp add: runDiagnosticsParallel_snd go_statements_def task_events)
qed

text \<open>
  The claim as stated fails on the example agent: the sequential report is not the concurrent
  one even for the declaration order, and when the best-practices goroutine sends first the
  concurrent report begins with its text.
\<close>

theorem orchestration_reports_counterexample:
  "fst (runDiagnostics example_env example_d [] [] []) \<noteq>
     fst (runDiagnosticsParallel example_env example_d [] [] [] go_statements) \<and>
   mset [GeneralTFBestPractices, MissingResources, ImpervaResourceReplaceSuggestions,
         ImpervaNewFeaturesSuggestions] = mset go_statements \<and>
   fst (runDiagnosticsParallel example_env example_d [] [] []
          [GeneralTFBestPractices, MissingResources, ImpervaResourceReplaceSuggestions,
           ImpervaNewFeaturesSuggestions]) =
     ''best-practices advice\<newline>missing-resources advice\<newline>replacement advice\<newline>new-features advice'' \<and>
   fst (runDiagnosticsParallel example_env example_d [] [] [] go_statements) =
     ''missing-resources advice\<newline>best-practices advice\<newline>replacement advice\<newline>new-features advice'' \<and>
   fst (runDiagnostics example_env example_d [] [] []) =
     ''\<newline>missing-resources advice\<newline>best-practices advice\<newline>new-features advice''"
  by (simp add: runDiagnostics_fst runDiagnosticsParallel_fst go_statements_def example_task_text)

theorem orchestration_reports_witness:
  "mset [ImpervaNewFeaturesSuggestions, ImpervaResourceReplaceSuggestions,
         GeneralTFBestPractices, MissingResources] = mset go_statements \<and>
   fst (runDiagnosticsParallel example_env example_d [] [] []
          [ImpervaNewFeaturesSuggestions, ImpervaResourceReplaceSuggestions,
           GeneralTFBestPractices, MissingResources]) =
     ''new-features advice\<newline>replacement advice\<newline>best-practices advice\<newline>missing-resources advice'' \<and>
   mset [''new-features advice'', ''replacement advice'', ''best-practices advice'',
         ''missing-resources advice''] =
     mset [''missing-resources advice'', ''best-practices advice'', ''replacement advice'',
           ''new-features advice'']"
proof -
  let ?c = "[ImpervaNewFeaturesSuggestions, ImpervaResourceReplaceSuggestions,
             GeneralTFBestPractices, MissingResources]"
  have p: "mset ?c = mset go_statements"
    by (simp add: go_statements_def)
  from orchestration_reports [of ?c example_env example_d "[]" "[]" "[]"] p
  have r: "fst (runDiagnosticsParallel example_env example_d [] [] [] ?c) =
        strings_Join (map (task_text example_env example_d [] [] []) ?c) ''\<newline>''"
    and m: "mset (map (task_text example_env example_d [] [] []) ?c) =
        mset (map (task_text example_env example_d [] [] []) go_statements)"
    by blast+
  have r': "fst (runDiagnosticsParallel example_env example_d [] [] [] ?c) =
     ''new-features advice\<newline>replacement advice\<newline>best-practices advice\<newline>missing-resources advice''"
    by (simp only: r) (simp add: example_task_text)
  have m': "mset [''new-features advice'', ''replacement advice'', ''best-practices advice'',
         ''missing-resources advice''] =
     mset [''missing-resources advice'', ''best-practices advice'', ''replacement advice'',
           ''new-features advice'']"
    using m by (simp add: example_task_text go_statements_def)
  show ?thesis
    using p r' m' by (simp only: simp_thms)
qed

text \<open>
  Claim C2, as amended. In every advisory cycle that gets past the working-directory check, the
  dispatch step makes three agent calls, in this order: the inventory diff (tool-augmented),
  the general best practices and the new-feature adoption; the deprecated-resource replacement
  task is not invoked. The report is a newline followed by the three contributions, each two
  separated by a newline. The concurrent variant, which the cycle does not call, invokes each
  of the four tasks once and joins the four contributions with newlines.
\<close>

theorem dispatch_tasks:
  "(os_Getwd e = Inr cwd \<longrightarrow>
      filter is_agent_call (snd (getLLMSuggestions e d)) =
        [AnswerWithTools (getMissingResources_question (cycle_resources e d)) (api_id d) (api_key d),
         QueryAgent (getGeneralTFBestPractices_format @ cycle_files e d),
         QueryAgent
           (getImpervaNewFeaturesSuggestions_format_0 @ cycle_docs e @
            getImpervaNewFeaturesSuggestions_format_1 @ getNewFeatures @
            getImpervaNewFeaturesSuggestions_format_2 @ cycle_files e d @
            getImpervaNewFeaturesSuggestions_format_3)] \<and>
      cycle_report e d =
        ''\<newline>'' @
        task_text e d (cycle_resources e d) (cycle_docs e) (cycle_files e d) MissingResources @
        ''\<newline>'' @
        task_text e d (cycle_resources e d) (cycle_docs e) (cycle_files e d) GeneralTFBestPractices @
        ''\<newline>'' @
        task_text e d (cycle_resources e d) (cycle_docs e) (cycle_files e d)
          ImpervaNewFeaturesSuggestions \<and>
      fst (getLLMSuggestions e d) =
        Inr [\<lparr>Severity = Warning, Summary = ''Best Practice Suggestion'',
              Detail = cycle_report e d\<rparr>]) \<and>
   (mset completion = mset go_statements \<longrightarrow>
      mset (snd (runDiagnosticsParallel e d resources docs files completion)) =
        mset [AnswerWithTools (getMissingResources_question resources) (api_id d) (api_key d),
              QueryAgent (getGeneralTFBestPractices_format @ files),
              QueryAgent (getImpervaResourceReplaceSuggestions_format @ files),
              QueryAgent
                (getImpervaNewFeaturesSuggestions_format_0 @ docs @
                 getImpervaNewFeaturesSuggestions_format_1 @ getNewFeatures @
                 getImpervaNewFeaturesSuggestions_format_2 @ files @
                 getImpervaNewFeaturesSuggestions_format_3)] \<and>
      fst (runDiagnosticsParallel e d resources docs files completion) =
        strings_Join (map (task_text e d resources docs files) completion) ''\<newline>'' \<and>
      length (filter is_agent_call
                (snd (runDiagnosticsParallel e d resources docs files completion))) = 4)"
proof (intro conjI impI)
  assume g: "os_Getwd e = Inr cwd"
  show "filter is_agent_call (snd (getLLMSuggestions e d)) =
        [AnswerWithTools (getMissingResources_question (cycle_resources e d)) (api_id d) (api_key d),
         QueryAgent (getGeneralTFBestPractices_format @ cycle_files e d),
         QueryAgent
           (getImpervaNewFeaturesSuggestions_format_0 @ cycle_docs e @
            getImpervaNewFeaturesSuggestions_format_1 @ getNewFeatures @
            getImpervaNewFeaturesSuggestions_format_2 @ cycle_files e d @
            getImpervaNewFeaturesSuggestions_format_3)]"
    by (simp add: cycle_agent_calls [OF g] runDiagnostics_snd task_events)
  show "cycle_report e d =
        ''\<newline>'' @
        task_text e d (cycle_resources e d) (cycle_docs e) (cycle_files e d) MissingResources @
        ''\<newline>'' @
        task_text e d (cycle_resources e d) (cycle_docs e) (cycle_files e d) GeneralTFBestPractices @
        ''\<newline>'' @
        task_text e d (cycle_resources e d) (cycle_docs e) (cycle_files e d)
          ImpervaNewFeaturesSuggestions"
    unfolding cycle_report_def by (rule runDiagnostics_fst)
  show "fst (getLLMSuggestions e d) =
        Inr [\<lparr>Severity = Warning, Summary = ''Best Practice Suggestion'',
              Detail = cycle_report e d\<rparr>]"
    by (rule getLLMSuggestions_fst [OF g])
next
  assume p: "mset completion = mset go_statements"
  have "mset (snd (runDiagnosticsParallel e d resources docs files completion)) =
        mset (concat (map (\<lambda>g. snd (run_goroutine e d resources docs files g)) go_statements))"
    unfolding runDiagnosticsParallel_snd by (rule mset_parallel_events [OF p])
  then show "mset (snd (runDiagnosticsParallel e d resources docs files completion)) =
        mset [AnswerWithTools (getMissingResources_question resources) (api_id d) (api_key d),
              QueryAgent (getGeneralTFBestPractices_format @ files),
              QueryAgent (getImpervaResourceReplaceSuggestions_format @ files),
              QueryAgent
                (getImpervaNewFeaturesSuggestions_format_0 @ docs @
                 getImpervaNewFeaturesSuggestions_format_1 @ getNewFeatures @
                 getImpervaNewFeaturesSuggestions_format_2 @ files @
                 getImpervaNewFeaturesSuggestions_format_3)]"
    by (simp add: go_statements_def task_events)
  show "fst (runDiagnosticsParallel e d resources docs files completion) =
        strings_Join (map (task_text e d resources docs files) completion) ''\<newline>''"
    by (rule runDiagnosticsParallel_fst)
  have "length completion = size (mset completion)"
    by simp
  also have "\<dots> = size (mset go_statements)"
    by (simp only: p)
  finally have "length completion = 4"
    by (simp add: go_statements_def)
  then show "length (filter is_agent_call
                (snd (runDiagnosticsParallel e d resources docs files completion))) = 4"
    by (simp add: runDiagnosticsParallel_snd agent_calls_concat)
qed

lemma example_cycle_inputs:
  "cycle_files example_env example_d = ''resource A\<newline>variable B\<newline>''"
  "os_Getwd example_env = Inr ''/work''"
  by (simp_all add: cycle_files_def example_d_def getAllResourcesFromTfFiles_text
      collectRawConfiguration_spec_def example_discovered readable_def content_of_def)
     (simp_all add: example_env_def)

text \<open>
  The claim as stated fails on the example: the cycle makes three agent calls, none of them
  with the replace-suggestions prompt, and the report does not contain that task's text.
\<close>

theorem dispatch_tasks_counterexample:
  "length (filter is_agent_call (snd (getLLMSuggestions example_env example_d))) = 3 \<and>
   QueryAgent (getImpervaResourceReplaceSuggestions_format @ cycle_files example_env example_d)
     \<notin> set (snd (getLLMSuggestions example_env example_d)) \<and>
   task_text example_env example_d (cycle_resources example_env example_d) (cycle_docs example_env)
     (cycle_files example_env example_d) ImpervaResourceReplaceSuggestions = ''replacement advice'' \<and>
   fst (getLLMSuggestions example_env example_d) =
     Inr [\<lparr>Severity = Warning, Summary = ''Best Practice Suggestion'',
           Detail = ''\<newline>missing-resources advice\<newline>best-practices advice\<newline>new-features advice''\<rparr>] \<and>
   \<not> sublist ''replacement advice''
       ''\<newline>missing-resources advice\<newline>best-practices advice\<newline>new-features advice''"
proof -
  note g = example_cycle_inputs(2)
  have calls: "filter is_agent_call (snd (getLLMSuggestions example_env example_d)) =
        [AnswerWithTools (getMissingResources_question (cycle_resources example_env example_d))
           (api_id example_d) (api_key example_d),
         QueryAgent (getGeneralTFBestPractices_format @ cycle_files example_env example_d),
         QueryAgent
           (getImpervaNewFeaturesSuggestions_format_0 @ cycle_docs example_env @
            getImpervaNewFeaturesSuggestions_format_1 @ getNewFeatures @
            getImpervaNewFeaturesSuggestions_format_2 @ cycle_files example_env example_d @
            getImpervaNewFeaturesSuggestions_format_3)]"
    by (simp add: cycle_agent_calls [OF g] runDiagnostics_snd task_events)
  have a: "length (filter is_agent_call (snd (getLLMSuggestions example_env example_d))) = 3"
    by (simp only: calls) simp
  have ne1: "getImpervaResourceReplaceSuggestions_format @ x \<noteq> getGeneralTFBestPractices_format @ y" for x y
  proof
    assume "getImpervaResourceReplaceSuggestions_format @ x = getGeneralTFBestPractices_format @ y"
    then have "take 12 (getImpervaResourceReplaceSuggestions_format @ x) =
               take 12 (getGeneralTFBestPractices_format @ y)"
      by (rule arg_cong)
    then show False by (simp only: prompt_heads) simp
  qed
  have ne2: "getImpervaResourceReplaceSuggestions_format @ x \<noteq> getImpervaNewFeaturesSuggestions_format_0 @ y" for x y
  proof
    assume "getImpervaResourceReplaceSuggestions_format @ x = getImpervaNewFeaturesSuggestions_format_0 @ y"
    then have "take 12 (getImpervaResourceReplaceSuggestions_format @ x) =
               take 12 (getImpervaNewFeaturesSuggestions_format_0 @ y)"
      by (rule arg_cong)
    then show False by (simp only: prompt_heads) simp
  qed
  have "QueryAgent (getImpervaResourceReplaceSuggestions_format @ cycle_files example_env example_d)
     \<notin> set (filter is_agent_call (snd (getLLMSuggestions example_env example_d)))"
    by (simp only: calls) (simp add: ne1 ne2 ne1 [of "[]" "[]", simplified])
  then have b: "QueryAgent (getImpervaResourceReplaceSuggestions_format @ cycle_files example_env example_d)
     \<notin> set (snd (getLLMSuggestions example_env example_d))"
    by simp
  have c: "fst (getLLMSuggestions example_env example_d) =
     Inr [\<lparr>Severity = Warning, Summary = ''Best Practice Suggestion'',
           Detail = ''\<newline>missing-resources advice\<newline>best-practices advice\<newline>new-features advice''\<rparr>]"
    by (simp add: getLLMSuggestions_fst [OF g] cycle_report_def runDiagnostics_fst example_task_text)
  have s: "\<not> sublist ''replacement advice''
       ''\<newline>missing-resources advice\<newline>best-practices advice\<newline>new-features advice''"
    by code_simp
  show ?thesis
    using a b c s by (simp only: example_task_text simp_thms)
qed

theorem dispatch_tasks_witness:
  "os_Getwd example_env = Inr ''/work'' \<and>
   length (filter is_agent_call (snd (getLLMSuggestions example_env example_d))) = 3 \<and>
   cycle_report example_env example_d =
     ''\<newline>missing-resources advice\<newline>best-practices advice\<newline>new-features advice'' \<and>
   mset (rev go_statements) = mset go_statements \<and>
   length (filter is_agent_call
             (snd (runDiagnosticsParallel example_env example_d [] [] [] (rev go_statements)))) = 4 \<and>
   fst (runDiagnosticsParallel example_env example_d [] [] [] (rev go_statements)) =
     ''new-features advice\<newline>replacement advice\<newline>best-practices advice\<newline>missing-resources advice''"
proof -
  note g = example_cycle_inputs(2)
  have p: "mset (rev go_statements) = mset go_statements"
    by simp
  note t = dispatch_tasks [of example_env "''/work''" example_d "rev go_statements" "[]" "[]" "[]"]
  from t g have calls: "filter is_agent_call (snd (getLLMSuggestions example_env example_d)) =
        [AnswerWithTools (getMissingResources_question (cycle_resources example_env example_d))
           (api_id example_d) (api_key example_d),
         QueryAgent (getGeneralTFBestPractices_format @ cycle_files example_env example_d),
         QueryAgent
           (getImpervaNewFeaturesSuggestions_format_0 @ cycle_docs example_env @
            getImpervaNewFeaturesSuggestions_format_1 @ getNewFeatures @
            getImpervaNewFeaturesSuggestions_format_2 @ cycle_files example_env example_d @
            getImpervaNewFeaturesSuggestions_format_3)]"
    by blast
  have a: "length (filter is_agent_call (snd (getLLMSuggestions example_env example_d))) = 3"
    by (simp only: calls) simp
  from t g have "cycle_report example_env example_d =
        ''\<newline>'' @
        task_text example_env example_d (cycle_resources example_env example_d)
          (cycle_docs example_env) (cycle_files example_env example_d) MissingResources @
        ''\<newline>'' @
        task_text example_env example_d (cycle_resources example_env example_d)
          (cycle_docs example_env) (cycle_files example_env example_d) GeneralTFBestPractices @
        ''\<newline>'' @
        task_text example_env example_d (cycle_resources example_env example_d)
          (cycle_docs example_env) (cycle_files example_env example_d)
          ImpervaNewFeaturesSuggestions"
    by blast
  then have b: "cycle_report example_env example_d =
     ''\<newline>missing-resources advice\<newline>best-practices advice\<newline>new-features advice''"
    by (simp add: example_task_text)
  from t p have c: "length (filter is_agent_call
             (snd (runDiagnosticsParallel example_env example_d [] [] [] (rev go_statements)))) = 4"
    and j: "fst (runDiagnosticsParallel example_env example_d [] [] [] (rev go_statements)) =
        strings_Join (map (task_text example_env example_d [] [] []) (rev go_statements)) ''\<newline>''"
    by blast+
  have e: "fst (runDiagnosticsParallel example_env example_d [] [] [] (rev go_statements)) =
     ''new-features advice\<newline>replacement advice\<newline>best-practices advice\<newline>missing-resources advice''"
    by (simp only: j) (simp add: go_statements_def example_task_text)
  show ?thesis
    using g a b p c e by (simp only: simp_thms)
qed

subsection \<open>Failures\<close>

lemma collectors_ignore_agent:
  "getAllResourcesTypeAndId (e\<lparr>queryAgent := f\<rparr>) p = getAllResourcesTypeAndId e p"
  "getAllResourcesFromState (e\<lparr>queryAgent := f\<rparr>) p = getAllResourcesFromState e p"
  "getAllResourcesFromTfFiles (e\<lparr>queryAgent := f\<rparr>) dir = getAllResourcesFromTfFiles e dir"
  "readAndConcatWebsiteFiles (e\<lparr>queryAgent := f\<rparr>) r = readAndConcatWebsiteFiles e r"
proof -
  show "getAllResourcesTypeAndId (e\<lparr>queryAgent := f\<rparr>) p = getAllResourcesTypeAndId e p"
    "getAllResourcesFromState (e\<lparr>queryAgent := f\<rparr>) p = getAllResourcesFromState e p"
    by (simp_all add: getAllResourcesTypeAndId_def getAllResourcesFromState_def deferred_close_def
        cong: option.case_cong sum.case_cong)
  have "tf_files_loop (e\<lparr>queryAgent := f\<rparr>) files content = tf_files_loop e files content"
    for files content
    by (induction files arbitrary: content) (simp_all cong: sum.case_cong)
  then show "getAllResourcesFromTfFiles (e\<lparr>queryAgent := f\<rparr>) dir = getAllResourcesFromTfFiles e dir"
    by (simp add: getAllResourcesFromTfFiles_def cong: sum.case_cong)
  have "walk_loop (e\<lparr>queryAgent := f\<rparr>) entries builder = walk_loop e entries builder"
    for entries builder
  proof (induction entries arbitrary: builder)
    case Nil
    show ?case by simp
  next
    case (Cons entry entries)
    obtain path isDir err where "entry = WalkEntry path isDir err"
      by (cases entry)
    then show ?case using Cons.IH by (simp cong: option.case_cong sum.case_cong if_cong)
  qed
  then show "readAndConcatWebsiteFiles (e\<lparr>queryAgent := f\<rparr>) r = readAndConcatWebsiteFiles e r"
    by (simp add: readAndConcatWebsiteFiles_def)
qed

lemma cycle_inputs_ignore_agent:
  "cycle_resources (e\<lparr>queryAgent := f\<rparr>) d = cycle_resources e d"
  "cycle_files (e\<lparr>queryAgent := f\<rparr>) d = cycle_files e d"
  "cycle_docs (e\<lparr>queryAgent := f\<rparr>) = cycle_docs e"
  by (simp_all add: cycle_resources_def cycle_files_def cycle_docs_def collectors_ignore_agent)

lemma cycle_report_texts:
  "cycle_report e d =
     ''\<newline>'' @
     fst (answerWithTools e (getMissingResources_question (cycle_resources e d)) (api_id d) (api_key d)) @
     ''\<newline>'' @
     fst (queryAgent e (getGeneralTFBestPractices_format @ cycle_files e d)) @
     ''\<newline>'' @
     fst (queryAgent e
            (getImpervaNewFeaturesSuggestions_format_0 @ cycle_docs e @
             getImpervaNewFeaturesSuggestions_format_1 @ getNewFeatures @
             getImpervaNewFeaturesSuggestions_format_2 @ cycle_files e d @
             getImpervaNewFeaturesSuggestions_format_3))"
  by (simp add: cycle_report_def runDiagnostics_fst task_text_simps)

lemma cycle_report_failing_query:
  "cycle_report (with_failing_query e (getGeneralTFBestPractices_format @ cycle_files e d) partial err) d =
     ''\<newline>'' @
     fst (answerWithTools e (getMissingResources_question (cycle_resources e d)) (api_id d) (api_key d)) @
     ''\<newline>'' @ partial @ ''\<newline>'' @
     fst (queryAgent e
            (getImpervaNewFeaturesSuggestions_format_0 @ cycle_docs e @
             getImpervaNewFeaturesSuggestions_format_1 @ getNewFeatures @
             getImpervaNewFeaturesSuggestions_format_2 @ cycle_files e d @
             getImpervaNewFeaturesSuggestions_format_3))"
  unfolding cycle_report_texts with_failing_query_def cycle_inputs_ignore_agent
  using best_practices_prompt_differs
    [of "cycle_files e d" "cycle_docs e @
             getImpervaNewFeaturesSuggestions_format_1 @ getNewFeatures @
             getImpervaNewFeaturesSuggestions_format_2 @ cycle_files e d @
             getImpervaNewFeaturesSuggestions_format_3"]
  by (simp del: append_assoc)

text \<open>
  Claim C5, as amended. No task failure is fatal or alters the other tasks' contributions: a
  cycle that determines the working directory of the process always returns its diagnostic.
  Each segment of the report is the text of that task's own agent call, whatever error came
  with it and whatever the other calls did; when the best-practices call fails, returning some
  text \<open>partial\<close> with an error, the report holds \<open>partial\<close> in that segment and the other
  two segments are unchanged. The only fatal condition is a failure of \<open>os.Getwd\<close>, the
  working directory of the process, which the cycle only logs; it ends the cycle before any
  file is read or any task is dispatched. The execution directory is read from the
  configuration and plays no part in it: whether the cycle is fatal does not depend on the
  configuration, and an execution directory that cannot be used is not fatal.
\<close>

theorem task_failures_not_fatal:
  "(os_Getwd e = Inr cwd \<longrightarrow>
      fst (getLLMSuggestions e d) =
        Inr [\<lparr>Severity = Warning, Summary = ''Best Practice Suggestion'',
              Detail =
                ''\<newline>'' @
                fst (answerWithTools e (getMissingResources_question (cycle_resources e d))
                       (api_id d) (api_key d)) @
                ''\<newline>'' @
                fst (queryAgent e (getGeneralTFBestPractices_format @ cycle_files e d)) @
                ''\<newline>'' @
                fst (queryAgent e
                       (getImpervaNewFeaturesSuggestions_format_0 @ cycle_docs e @
                        getImpervaNewFeaturesSuggestions_format_1 @ getNewFeatures @
                        getImpervaNewFeaturesSuggestions_format_2 @ cycle_files e d @
                        getImpervaNewFeaturesSuggestions_format_3))\<rparr>] \<and>
      fst (getLLMSuggestions
             (with_failing_query e (getGeneralTFBestPractices_format @ cycle_files e d) partial err)
             d) =
        Inr [\<lparr>Severity = Warning, Summary = ''Best Practice Suggestion'',
              Detail =
                ''\<newline>'' @
                fst (answerWithTools e (getMissingResources_question (cycle_resources e d))
                       (api_id d) (api_key d)) @
                ''\<newline>'' @ partial @ ''\<newline>'' @
                fst (queryAgent e
                       (getImpervaNewFeaturesSuggestions_format_0 @ cycle_docs e @
                        getImpervaNewFeaturesSuggestions_format_1 @ getNewFeatures @
                        getImpervaNewFeaturesSuggestions_format_2 @ cycle_files e d @
                        getImpervaNewFeaturesSuggestions_format_3))\<rparr>]) \<and>
   (os_Getwd e = Inl err' \<longrightarrow>
      getLLMSuggestions e d =
        (Inl (OsExit 1),
         [LogFatalf ''Failed to get current working directory: %v'' [ArgError err']]) \<and>
      filter is_agent_call (snd (getLLMSuggestions e d)) = []) \<and>
   ((\<exists>x. fst (getLLMSuggestions e d) = Inl x) = (\<exists>err''. os_Getwd e = Inl err'')) \<and>
   ((\<exists>x. fst (getLLMSuggestions e d) = Inl x) = (\<exists>x. fst (getLLMSuggestions e d') = Inl x))"
proof (intro conjI impI)
  assume g: "os_Getwd e = Inr cwd"
  show "fst (getLLMSuggestions e d) =
        Inr [\<lparr>Severity = Warning, Summary = ''Best Practice Suggestion'',
              Detail =
                ''\<newline>'' @
                fst (answerWithTools e (getMissingResources_question (cycle_resources e d))
                       (api_id d) (api_key d)) @
                ''\<newline>'' @
                fst (queryAgent e (getGeneralTFBestPractices_format @ cycle_files e d)) @
                ''\<newline>'' @
                fst (queryAgent e
                       (getImpervaNewFeaturesSuggestions_format_0 @ cycle_docs e @
                        getImpervaNewFeaturesSuggestions_format_1 @ getNewFeatures @
                        getImpervaNewFeaturesSuggestions_format_2 @ cycle_files e d @
                        getImpervaNewFeaturesSuggestions_format_3))\<rparr>]"
    by (simp only: getLLMSuggestions_fst [OF g] cycle_report_texts)
  let ?e' = "with_failing_query e (getGeneralTFBestPractices_format @ cycle_files e d) partial err"
  have g': "os_Getwd ?e' = Inr cwd"
    using g by (simp add: with_failing_query_def)
  show "fst (getLLMSuggestions ?e' d) =
        Inr [\<lparr>Severity = Warning, Summary = ''Best Practice Suggestion'',
              Detail =
                ''\<newline>'' @
                fst (answerWithTools e (getMissingResources_question (cycle_resources e d))
                       (api_id d) (api_key d)) @
                ''\<newline>'' @ partial @ ''\<newline>'' @
                fst (queryAgent e
                       (getImpervaNewFeaturesSuggestions_format_0 @ cycle_docs e @
                        getImpervaNewFeaturesSuggestions_format_1 @ getNewFeatures @
                        getImpervaNewFeaturesSuggestions_format_2 @ cycle_files e d @
                        getImpervaNewFeaturesSuggestions_format_3))\<rparr>]"
    by (simp only: getLLMSuggestions_fst [OF g'] cycle_report_failing_query)
next
  assume g: "os_Getwd e = Inl err'"
  show "getLLMSuggestions e d =
        (Inl (OsExit 1),
         [LogFatalf ''Failed to get current working directory: %v'' [ArgError err']])"
    by (rule getLLMSuggestions_fatal [OF g])
  then show "filter is_agent_call (snd (getLLMSuggestions e d)) = []"
    by simp
next
  have f: "(\<exists>x. fst (getLLMSuggestions e c) = Inl x) = (\<exists>err''. os_Getwd e = Inl err'')" for c
  proof (cases "os_Getwd e")
    case (Inl a)
    then show ?thesis by (simp add: getLLMSuggestions_fatal)
  next
    case (Inr b)
    then show ?thesis by (simp add: getLLMSuggestions_fst)
  qed
  show "(\<exists>x. fst (getLLMSuggestions e d) = Inl x) = (\<exists>err''. os_Getwd e = Inl err'')"
    by (rule f)
  show "(\<exists>x. fst (getLLMSuggestions e d) = Inl x) = (\<exists>x. fst (getLLMSuggestions e d') = Inl x)"
    by (simp only: f)
qed

lemma unopenable_agent:
  "queryAgent unopenable_env = queryAgent example_env"
  "answerWithTools unopenable_env = answerWithTools example_env"
  "os_Getwd unopenable_env = Inr ''/work''"
  by (simp_all add: unopenable_env_def) (simp add: example_env_def)

text \<open>
  The claim as stated fails on the example. With the execution directory \<open>/work/site\<close> known
  and usable, the cycle is fatal because the working directory of the process cannot be
  determined. With an execution directory in which the state file cannot be opened and the
  glob fails, the cycle is not fatal and reports the three tasks.
\<close>

theorem task_failures_not_fatal_counterexample:
  "execution_dir example_d = ''/work/site'' \<and>
   os_Getwd lost_env = Inl (Err ''getwd: no such file or directory'') \<and>
   fst (getLLMSuggestions lost_env example_d) = Inl (OsExit 1) \<and>
   execution_dir unusable_d = ''['' \<and>
   os_Open unopenable_env (execution_dir unusable_d @ ''terraform.tfstate'') =
     Some (Err ''no such file or directory'') \<and>
   fst (getAllResourcesFromTfFiles unopenable_env (execution_dir unusable_d)) =
     ([], Some (Err ''syntax error in pattern'')) \<and>
   fst (getLLMSuggestions unopenable_env unusable_d) =
     Inr [\<lparr>Severity = Warning, Summary = ''Best Practice Suggestion'',
           Detail = ''\<newline>missing-resources advice\<newline>best-practices advice\<newline>new-features advice''\<rparr>]"
proof -
  have a: "execution_dir example_d = ''/work/site''" "execution_dir unusable_d = ''[''"
    by (simp_all add: example_d_def unusable_d_def)
  have l: "os_Getwd lost_env = Inl (Err ''getwd: no such file or directory'')"
    by (simp add: lost_env_def)
  have b: "fst (getLLMSuggestions lost_env example_d) = Inl (OsExit 1)"
    by (simp add: getLLMSuggestions_fatal [OF l])
  have o: "os_Open unopenable_env (execution_dir unusable_d @ ''terraform.tfstate'') =
     Some (Err ''no such file or directory'')"
    by (simp add: unopenable_env_def)
  have g: "fst (getAllResourcesFromTfFiles unopenable_env (execution_dir unusable_d)) =
     ([], Some (Err ''syntax error in pattern''))"
    by (simp add: a getAllResourcesFromTfFiles_def unopenable_env_def) (simp add: example_env_def)
  have r: "fst (getLLMSuggestions unopenable_env unusable_d) =
     Inr [\<lparr>Severity = Warning, Summary = ''Best Practice Suggestion'',
           Detail = ''\<newline>missing-resources advice\<newline>best-practices advice\<newline>new-features advice''\<rparr>]"
    by (simp only: getLLMSuggestions_fst [OF unopenable_agent(3)] cycle_report_texts
        unopenable_agent example_agent prompt_heads) simp
  show ?thesis
    by (intro conjI a l b o g r)
qed

theorem task_failures_not_fatal_witness:
  "os_Getwd example_env = Inr ''/work'' \<and>
   fst (getLLMSuggestions example_env example_d) =
     Inr [\<lparr>Severity = Warning, Summary = ''Best Practice Suggestion'',
           Detail = ''\<newline>missing-resources advice\<newline>best-practices advice\<newline>new-features advice''\<rparr>] \<and>
   fst (getLLMSuggestions
          (with_failing_query example_env
             (getGeneralTFBestPractices_format @ cycle_files example_env example_d) ''''
             (Err ''agent timeout''))
          example_d) =
     Inr [\<lparr>Severity = Warning, Summary = ''Best Practice Suggestion'',
           Detail = ''\<newline>missing-resources advice\<newline>\<newline>new-features advice''\<rparr>] \<and>
   os_Getwd lost_env = Inl (Err ''getwd: no such file or directory'') \<and>
   getLLMSuggestions lost_env example_d =
     (Inl (OsExit 1),
      [LogFatalf ''Failed to get current working directory: %v''
         [ArgError (Err ''getwd: no such file or directory'')]])"
proof -
  note g = example_cycle_inputs(2)
  have l: "os_Getwd lost_env = Inl (Err ''getwd: no such file or directory'')"
    by (simp add: lost_env_def)
  note t = task_failures_not_fatal [of example_env "''/work''" example_d "''''" "Err ''agent timeout''"
      "Err ''x''"]
  note t' = task_failures_not_fatal [of lost_env "''/work''" example_d "''''" "Err ''agent timeout''"
      "Err ''getwd: no such file or directory''"]
  have a: "fst (getLLMSuggestions example_env example_d) =
     Inr [\<lparr>Severity = Warning, Summary = ''Best Practice Suggestion'',
           Detail = ''\<newline>missing-resources advice\<newline>best-practices advice\<newline>new-features advice''\<rparr>]"
    using t g by (simp only: simp_thms example_agent prompt_heads) simp
  have b: "fst (getLLMSuggestions
          (with_failing_query example_env
             (getGeneralTFBestPractices_format @ cycle_files example_env example_d) ''''
             (Err ''agent timeout''))
          example_d) =
     Inr [\<lparr>Severity = Warning, Summary = ''Best Practice Suggestion'',
           Detail = ''\<newline>missing-resources advice\<newline>\<newline>new-features advice''\<rparr>]"
    using t g by (simp only: simp_thms example_agent prompt_heads) simp
  have c: "getLLMSuggestions lost_env example_d =
     (Inl (OsExit 1),
      [LogFatalf ''Failed to get current working directory: %v''
         [ArgError (Err ''getwd: no such file or directory'')]])"
    using t' l by blast
  show ?thesis
    using g a b l c by (simp only: simp_thms)
qed

subsection \<open>The state-snapshot path\<close>

lemma split_path_not_Nil [simp]: "split_path xs \<noteq> []"
  by (induction xs) (simp_all split: list.splits)

lemma split_path_no_separator:
  "CHR ''/'' \<notin> set ys \<Longrightarrow> split_path ys = [ys]"
  by (induction ys) (auto split: list.splits)

lemma split_path_append_name:
  "CHR ''/'' \<notin> set ys \<Longrightarrow>
   split_path (xs @ ys) = butlast (split_path xs) @ [last (split_path xs) @ ys]"
proof (induction xs)
  case Nil
  then show ?case by (simp add: split_path_no_separator)
next
  case (Cons c xs)
  obtain w ws where s: "split_path xs = w # ws"
    by (cases "split_path xs") simp_all
  show ?case
    using Cons s by (cases ws) auto
qed

lemma length_split_path:
  "length (split_path xs) = Suc (length (filter (\<lambda>c. c = CHR ''/'') xs))"
  by (induction xs) (auto split: list.splits)

lemma last_split_path_after_separator:
  "last (split_path (xs @ ''/'' @ ys)) = last (split_path ys)"
proof (induction xs)
  case Nil
  show ?case by simp
next
  case (Cons c xs)
  have "2 \<le> length (split_path (xs @ ''/'' @ ys))"
    by (simp add: length_split_path)
  then obtain w v vs where "split_path (xs @ ''/'' @ ys) = w # v # vs"
    by (cases "split_path (xs @ ''/'' @ ys)"; cases "tl (split_path (xs @ ''/'' @ ys))") auto
  with Cons show ?case by auto
qed

lemma last_component_empty:
  "(last_component dir = []) = (dir = [] \<or> suffix ''/'' dir)"
proof (cases dir rule: rev_cases)
  case Nil
  then show ?thesis by (simp add: last_component_def)
next
  case (snoc zs z)
  show ?thesis
  proof (cases "z = CHR ''/''")
    case True
    have "last (split_path (zs @ ''/'' @ [])) = last (split_path [])"
      by (rule last_split_path_after_separator)
    then show ?thesis
      using snoc True by (simp add: last_component_def suffix_def)
  next
    case False
    then have "split_path (zs @ [z]) = butlast (split_path zs) @ [last (split_path zs) @ [z]]"
      by (intro split_path_append_name) simp
    then show ?thesis
      using snoc False by (simp add: last_component_def suffix_def)
  qed
qed

lemma last_component_resolve:
  "last_component (resolve cwd dir) = last_component dir"
  using last_split_path_after_separator [of cwd dir]
  by (simp add: last_component_def resolve_def)

lemma resolve_state_path:
  "resolve cwd (dir @ ''terraform.tfstate'') = resolve cwd dir @ ''terraform.tfstate''"
  by (cases dir) (simp_all add: resolve_def)

lemma split_path_trailing_separator:
  "split_path (xs @ ''/'') = split_path xs @ [[]]"
  by (induction xs) (auto split: list.splits)

lemma split_path_butlast_last:
  "split_path xs = butlast (split_path xs) @ [last_component xs]"
  by (simp add: last_component_def)

lemma path_components_dir:
  "path_components cwd dir =
     norm_step (foldl norm_step [] (butlast (split_path (resolve cwd dir)))) (last_component dir)"
proof -
  have "split_path (resolve cwd dir) =
        butlast (split_path (resolve cwd dir)) @ [last_component dir]"
    using split_path_butlast_last [of "resolve cwd dir"] by (simp only: last_component_resolve)
  then have "foldl norm_step [] (split_path (resolve cwd dir)) =
        foldl norm_step [] (butlast (split_path (resolve cwd dir)) @ [last_component dir])"
    by (rule arg_cong)
  then show ?thesis
    by (simp add: path_components_def)
qed

lemma path_components_state_path:
  "path_components cwd (dir @ ''terraform.tfstate'') =
     foldl norm_step [] (butlast (split_path (resolve cwd dir))) @
     [last_component dir @ ''terraform.tfstate'']"
proof -
  have "split_path (resolve cwd dir @ ''terraform.tfstate'') =
        butlast (split_path (resolve cwd dir)) @
        [last (split_path (resolve cwd dir)) @ ''terraform.tfstate'']"
    by (rule split_path_append_name) simp
  then have "split_path (resolve cwd (dir @ ''terraform.tfstate'')) =
        butlast (split_path (resolve cwd dir)) @ [last_component dir @ ''terraform.tfstate'']"
    using last_component_resolve [of cwd dir]
    by (simp only: resolve_state_path last_component_def)
  then have "path_components cwd (dir @ ''terraform.tfstate'') =
        norm_step (foldl norm_step [] (butlast (split_path (resolve cwd dir))))
          (last_component dir @ ''terraform.tfstate'')"
    by (simp add: path_components_def)
  then show ?thesis
    by (simp add: norm_step_def)
qed

lemma state_path_sibling:
  assumes "last_component dir \<noteq> []" and "last_component dir \<noteq> ''.''"
    and "last_component dir \<noteq> ''..''"
  shows "\<not> inside_directory cwd dir (dir @ ''terraform.tfstate'')"
  using assms
  by (simp add: inside_directory_def path_components_state_path path_components_dir [of cwd dir]
      norm_step_def)

lemma state_path_inside:
  assumes "last_component dir = [] \<or> last_component dir = ''.''"
  shows "inside_directory cwd dir (dir @ ''terraform.tfstate'')"
  using assms
  by (auto simp: inside_directory_def path_components_state_path path_components_dir [of cwd dir]
      norm_step_def)

lemma path_components_cwd:
  assumes "prefix ''/'' cwd"
  shows "path_components cwd [] = path_components cwd cwd"
proof -
  have "resolve cwd cwd = cwd"
    using assms by (simp add: resolve_def)
  moreover have "resolve cwd [] = cwd @ ''/''"
    by (simp add: resolve_def)
  ultimately show ?thesis
    by (simp add: path_components_def split_path_trailing_separator norm_step_def)
qed

lemma opened_paths:
  assumes "os_Getwd e = Inr cwd"
  shows "(OsOpen p \<in> set (snd (getLLMSuggestions e d))) =
         (p = execution_dir d @ ''terraform.tfstate'')"
proof -
  have "(OsOpen p \<in> set (snd (getLLMSuggestions e d))) =
        (OsOpen p \<in> set (filter is_OsOpen (snd (getLLMSuggestions e d))))"
    by simp
  also have "\<dots> = (p = execution_dir d @ ''terraform.tfstate'')"
    by (simp only: cycle_opens [OF assms] statePath_def) auto
  finally show ?thesis .
qed

text \<open>
  Claim C10, as amended. The path of the state snapshot, which the cycle opens twice, is the
  configured \<open>execution_dir\<close> immediately followed by \<open>terraform.tfstate\<close>, with no separator
  put between them. So when \<open>execution_dir\<close> is not empty, does not end with the separator and
  has a last component other than \<open>.\<close> and \<open>..\<close>, no path the cycle opens is a file inside
  the directory \<open>execution_dir\<close>. When \<open>execution_dir\<close> is empty the path is the bare name
  \<open>terraform.tfstate\<close>, a file inside the working directory of the process (an absolute
  path, as \<open>os.Getwd\<close> returns it). When the last component of \<open>execution_dir\<close> is \<open>.\<close>
  the path opened is a file inside that directory.
\<close>

theorem state_path_concatenation:
  "(os_Getwd e = Inr cwd \<longrightarrow>
      filter is_OsOpen (snd (getLLMSuggestions e d)) =
        [OsOpen (execution_dir d @ ''terraform.tfstate''),
         OsOpen (execution_dir d @ ''terraform.tfstate'')]) \<and>
   (os_Getwd e = Inr cwd \<and> execution_dir d \<noteq> [] \<and> \<not> suffix ''/'' (execution_dir d) \<and>
    last_component (execution_dir d) \<noteq> ''.'' \<and> last_component (execution_dir d) \<noteq> ''..'' \<longrightarrow>
      (\<forall>p. OsOpen p \<in> set (snd (getLLMSuggestions e d)) \<longrightarrow>
           \<not> inside_directory cwd (execution_dir d) p)) \<and>
   (os_Getwd e = Inr cwd \<and> prefix ''/'' cwd \<and> execution_dir d = [] \<longrightarrow>
      (\<forall>p. OsOpen p \<in> set (snd (getLLMSuggestions e d)) \<longrightarrow>
           p = ''terraform.tfstate'' \<and> inside_directory cwd cwd p)) \<and>
   (os_Getwd e = Inr cwd \<and> last_component (execution_dir d) = ''.'' \<longrightarrow>
      (\<forall>p. OsOpen p \<in> set (snd (getLLMSuggestions e d)) \<longrightarrow>
           inside_directory cwd (execution_dir d) p))"
proof (intro conjI impI allI)
  assume "os_Getwd e = Inr cwd"
  then show "filter is_OsOpen (snd (getLLMSuggestions e d)) =
        [OsOpen (execution_dir d @ ''terraform.tfstate''),
         OsOpen (execution_dir d @ ''terraform.tfstate'')]"
    by (simp add: cycle_opens statePath_def)
next
  fix p
  assume a: "os_Getwd e = Inr cwd \<and> execution_dir d \<noteq> [] \<and> \<not> suffix ''/'' (execution_dir d) \<and>
    last_component (execution_dir d) \<noteq> ''.'' \<and> last_component (execution_dir d) \<noteq> ''..''"
    and o: "OsOpen p \<in> set (snd (getLLMSuggestions e d))"
  from a o have p: "p = execution_dir d @ ''terraform.tfstate''"
    by (simp add: opened_paths)
  from a have "last_component (execution_dir d) \<noteq> []"
    by (simp add: last_component_empty)
  with a show "\<not> inside_directory cwd (execution_dir d) p"
    unfolding p by (intro state_path_sibling) simp_all
next
  fix p
  assume a: "os_Getwd e = Inr cwd \<and> prefix ''/'' cwd \<and> execution_dir d = []"
    and o: "OsOpen p \<in> set (snd (getLLMSuggestions e d))"
  from a o show p: "p = ''terraform.tfstate''"
    by (simp add: opened_paths)
  have "inside_directory cwd [] ([] @ ''terraform.tfstate'')"
    by (rule state_path_inside) (simp add: last_component_def)
  then show "inside_directory cwd cwd p"
    using a by (simp add: p inside_directory_def path_components_cwd)
next
  fix p
  assume a: "os_Getwd e = Inr cwd \<and> last_component (execution_dir d) = ''.''"
    and o: "OsOpen p \<in> set (snd (getLLMSuggestions e d))"
  from a o have p: "p = execution_dir d @ ''terraform.tfstate''"
    by (simp add: opened_paths)
  from a show "inside_directory cwd (execution_dir d) p"
    unfolding p by (intro state_path_inside) simp
qed

text \<open>
  The claim as stated fails for the execution directory \<open>.\<close>, which does not end with a
  separator: the cycle opens \<open>.terraform.tfstate\<close>, a file inside that directory.
\<close>

theorem state_path_concatenation_counterexample:
  "os_Getwd example_env = Inr ''/work'' \<and>
   execution_dir dot_d = ''.'' \<and>
   \<not> suffix ''/'' (execution_dir dot_d) \<and>
   filter is_OsOpen (snd (getLLMSuggestions example_env dot_d)) =
     [OsOpen ''.terraform.tfstate'', OsOpen ''.terraform.tfstate''] \<and>
   inside_directory ''/work'' ''.'' ''.terraform.tfstate''"
proof -
  note g = example_cycle_inputs(2)
  have x: "execution_dir dot_d = ''.''"
    by (simp add: dot_d_def)
  have s: "\<not> suffix ''/'' (execution_dir dot_d)"
    by (simp add: x suffix_def)
  have o: "filter is_OsOpen (snd (getLLMSuggestions example_env dot_d)) =
     [OsOpen ''.terraform.tfstate'', OsOpen ''.terraform.tfstate'']"
    by (simp add: cycle_opens [OF g] statePath_def x)
  have i: "inside_directory ''/work'' ''.'' ''.terraform.tfstate''"
    by code_simp
  show ?thesis
    using g x s o i by (simp only: simp_thms)
qed

theorem state_path_concatenation_witness:
  "os_Getwd example_env = Inr ''/work'' \<and>
   filter is_OsOpen (snd (getLLMSuggestions example_env example_d)) =
     [OsOpen ''/work/siteterraform.tfstate'', OsOpen ''/work/siteterraform.tfstate''] \<and>
   execution_dir example_d = ''/work/site'' \<and>
   last_component (execution_dir example_d) = ''site'' \<and>
   \<not> inside_directory ''/work'' ''/work/site'' ''/work/siteterraform.tfstate'' \<and>
   execution_dir cwd_d = [] \<and>
   OsOpen ''terraform.tfstate'' \<in> set (snd (getLLMSuggestions example_env cwd_d)) \<and>
   inside_directory ''/work'' ''/work'' ''terraform.tfstate'' \<and>
   last_component (execution_dir dot_d) = ''.'' \<and>
   OsOpen ''.terraform.tfstate'' \<in> set (snd (getLLMSuggestions example_env dot_d)) \<and>
   inside_directory ''/work'' ''.'' ''.terraform.tfstate''"
proof -
  note g = example_cycle_inputs(2)
  have x: "execution_dir example_d = ''/work/site''" "execution_dir cwd_d = []"
    "execution_dir dot_d = ''.''"
    by (simp_all add: example_d_def cwd_d_def dot_d_def)
  have l: "last_component (execution_dir example_d) = ''site''"
    "last_component (execution_dir dot_d) = ''.''"
    by (simp_all add: x last_component_def)
  have s: "\<not> suffix ''/'' (execution_dir example_d)"
    by (simp add: x suffix_def)
  have c: "prefix ''/'' ''/work''"
    by simp
  have n: "execution_dir example_d \<noteq> []" "last_component (execution_dir example_d) \<noteq> ''.''"
    "last_component (execution_dir example_d) \<noteq> ''..''"
    by (simp_all add: l) (simp add: x)
  note t = state_path_concatenation [of example_env "''/work''" example_d]
  note t' = state_path_concatenation [of example_env "''/work''" cwd_d]
  note t'' = state_path_concatenation [of example_env "''/work''" dot_d]
  have a: "filter is_OsOpen (snd (getLLMSuggestions example_env example_d)) =
        [OsOpen (execution_dir example_d @ ''terraform.tfstate''),
         OsOpen (execution_dir example_d @ ''terraform.tfstate'')]"
    by (rule t [THEN conjunct1, rule_format]) (rule g)
  have a': "filter is_OsOpen (snd (getLLMSuggestions example_env example_d)) =
     [OsOpen ''/work/siteterraform.tfstate'', OsOpen ''/work/siteterraform.tfstate'']"
    using a by (simp add: x)
  have "OsOpen ''/work/siteterraform.tfstate'' \<in>
          set (filter is_OsOpen (snd (getLLMSuggestions example_env example_d)))"
    by (simp only: a') simp
  then have m: "OsOpen ''/work/siteterraform.tfstate'' \<in>
          set (snd (getLLMSuggestions example_env example_d))"
    by simp
  have "\<not> inside_directory ''/work'' (execution_dir example_d) ''/work/siteterraform.tfstate''"
    by (rule t [THEN conjunct2, THEN conjunct1, rule_format]) (intro conjI g n s, rule m)
  then have b: "\<not> inside_directory ''/work'' ''/work/site'' ''/work/siteterraform.tfstate''"
    by (simp add: x)
  have m': "OsOpen ''terraform.tfstate'' \<in> set (snd (getLLMSuggestions example_env cwd_d))"
    by (simp add: opened_paths [OF g] x)
  have "''terraform.tfstate'' = ''terraform.tfstate'' \<and>
        inside_directory ''/work'' ''/work'' ''terraform.tfstate''"
    by (rule t' [THEN conjunct2, THEN conjunct2, THEN conjunct1, rule_format])
       (intro conjI g c x, rule m')
  then have e: "inside_directory ''/work'' ''/work'' ''terraform.tfstate''"
    by (rule conjunct2)
  have m'': "OsOpen ''.terraform.tfstate'' \<in> set (snd (getLLMSuggestions example_env dot_d))"
    by (simp add: opened_paths [OF g] x)
  have "inside_directory ''/work'' (execution_dir dot_d) ''.terraform.tfstate''"
    by (rule t'' [THEN conjunct2, THEN conjunct2, THEN conjunct2, rule_format])
       (intro conjI g l, rule m'')
  then have f: "inside_directory ''/work'' ''.'' ''.terraform.tfstate''"
    by (simp add: x)
  show ?thesis
    by (intro conjI g a' x l b m' e m'' f)
qed

subsection \<open>The prompt of the inventory diff task\<close>

lemma sublist_inside: "sublist s p \<Longrightarrow> sublist s (a @ p @ b)"
proof -
  assume "sublist s p"
  then obtain ps ss where "p = ps @ s @ ss"
    by (auto simp: sublist_def)
  then have "a @ p @ b = (a @ ps) @ s @ (ss @ b)"
    by simp
  then show ?thesis
    unfolding sublist_def by blast
qed

lemma sublist_strings_Join:
  "x \<in> set xs \<Longrightarrow> sublist x (strings_Join xs sep)"
proof (induction xs sep rule: strings_Join.induct)
  case (1 sep)
  then show ?case by simp
next
  case (2 y sep)
  then show ?case by simp
next
  case (3 y z zs sep)
  show ?case
  proof (cases "x = y")
    case True
    then show ?thesis by simp
  next
    case False
    with 3 have "sublist x (strings_Join (z # zs) sep)"
      by simp
    then have "sublist x ((y @ sep) @ strings_Join (z # zs) sep @ [])"
      by (rule sublist_inside)
    then show ?thesis by simp
  qed
qed

lemma sublist_Sprintf_v:
  assumes "r \<in> set resources"
  shows "sublist (''{'' @ tf_Type r @ '' '' @ tf_Id r @ ''}'') (Sprintf_v_TfResources resources)"
proof -
  have "Sprintf_v_TfResource r \<in> set (map Sprintf_v_TfResource resources)"
    using assms by simp
  then have "sublist (Sprintf_v_TfResource r) (strings_Join (map Sprintf_v_TfResource resources) '' '')"
    by (rule sublist_strings_Join)
  then have "sublist (Sprintf_v_TfResource r)
               (''['' @ strings_Join (map Sprintf_v_TfResource resources) '' '' @ '']'')"
    by (rule sublist_inside)
  then show ?thesis
    by (simp add: Sprintf_v_TfResources_def Sprintf_v_TfResource_def)
qed

lemma question_pieces:
  "sublist missing_q1 (getMissingResources_question resources)"
  "sublist missing_q2 (getMissingResources_question resources)"
  "sublist missing_q3 (getMissingResources_question resources)"
  "sublist missing_q5 (getMissingResources_question resources)"
  "sublist missing_q6 (getMissingResources_question resources)"
  "sublist missing_q7 (getMissingResources_question resources)"
  "sublist missing_q8 (getMissingResources_question resources)"
  "sublist missing_q9 (getMissingResources_question resources)"
  "suffix (missing_q11 @ Sprintf_v_TfResources resources) (getMissingResources_question resources)"
  "sublist (Sprintf_v_TfResources resources) (getMissingResources_question resources)"
proof -
  let ?q = "getMissingResources_question resources"
  show "sublist missing_q1 ?q"
    unfolding getMissingResources_question_def by (rule sublist_append_rightI)
  have "sublist missing_q2 (missing_q1 @ missing_q2 @
      (missing_q3 @ missing_q4 @ missing_q5 @ missing_q6 @ missing_q7 @
       missing_q8 @ missing_q9 @ missing_q10 @ missing_q11 @ Sprintf_v_TfResources resources))"
    by (rule sublist_appendI)
  then show "sublist missing_q2 ?q"
    by (simp add: getMissingResources_question_def)
  have "sublist missing_q3 ((missing_q1 @ missing_q2) @ missing_q3 @
      (missing_q4 @ missing_q5 @ missing_q6 @ missing_q7 @
       missing_q8 @ missing_q9 @ missing_q10 @ missing_q11 @ Sprintf_v_TfResources resources))"
    by (rule sublist_appendI)
  then show "sublist missing_q3 ?q"
    by (simp add: getMissingResources_question_def)
  have "sublist missing_q5 ((missing_q1 @ missing_q2 @ missing_q3 @ missing_q4) @ missing_q5 @
      (missing_q6 @ missing_q7 @
       missing_q8 @ missing_q9 @ missing_q10 @ missing_q11 @ Sprintf_v_TfResources resources))"
    by (rule sublist_appendI)
  then show "sublist missing_q5 ?q"
    by (simp add: getMissingResources_question_def)
  have "sublist missing_q6 ((missing_q1 @ missing_q2 @ missing_q3 @ missing_q4 @ missing_q5) @
      missing_q6 @
      (missing_q7 @ missing_q8 @ missing_q9 @ missing_q10 @ missing_q11 @
       Sprintf_v_TfResources resources))"
    by (rule sublist_appendI)
  then show "sublist missing_q6 ?q"
    by (simp add: getMissingResources_question_def)
  have "sublist missing_q7
     ((missing_q1 @ missing_q2 @ missing_q3 @ missing_q4 @ missing_q5 @ missing_q6) @
      missing_q7 @
      (missing_q8 @ missing_q9 @ missing_q10 @ missing_q11 @ Sprintf_v_TfResources resources))"
    by (rule sublist_appendI)
  then show "sublist missing_q7 ?q"
    by (simp add: getMissingResources_question_def)
  have "sublist missing_q8
     ((missing_q1 @ missing_q2 @ missing_q3 @ missing_q4 @ missing_q5 @ missing_q6 @ missing_q7) @
      missing_q8 @
      (missing_q9 @ missing_q10 @ missing_q11 @ Sprintf_v_TfResources resources))"
    by (rule sublist_appendI)
  then show "sublist missing_q8 ?q"
    by (simp add: getMissingResources_question_def)
  have "sublist missing_q9
     ((missing_q1 @ missing_q2 @ missing_q3 @ missing_q4 @ missing_q5 @ missing_q6 @ missing_q7 @
       missing_q8) @
      missing_q9 @
      (missing_q10 @ missing_q11 @ Sprintf_v_TfResources resources))"
    by (rule sublist_appendI)
  then show "sublist missing_q9 ?q"
    by (simp add: getMissingResources_question_def)
  have "suffix (missing_q11 @ Sprintf_v_TfResources resources)
     ((missing_q1 @ missing_q2 @ missing_q3 @ missing_q4 @ missing_q5 @ missing_q6 @ missing_q7 @
       missing_q8 @ missing_q9 @ missing_q10) @ missing_q11 @ Sprintf_v_TfResources resources)"
    by (rule suffixI) simp
  then show s: "suffix (missing_q11 @ Sprintf_v_TfResources resources) ?q"
    by (simp add: getMissingResources_question_def)
  have "suffix (Sprintf_v_TfResources resources)
     ((missing_q1 @ missing_q2 @ missing_q3 @ missing_q4 @ missing_q5 @ missing_q6 @ missing_q7 @
       missing_q8 @ missing_q9 @ missing_q10 @ missing_q11) @ Sprintf_v_TfResources resources)"
    by (rule suffixI) simp
  then have "suffix (Sprintf_v_TfResources resources) ?q"
    by (simp add: getMissingResources_question_def)
  then show "sublist (Sprintf_v_TfResources resources) ?q"
    by (rule suffix_imp_sublist)
qed

lemma sentences:
  "sublist ''gather the full list of sites using the available MCP tool'' missing_q1"
  "sublist ''Fetch all sites using the tool with a page size of 100.'' missing_q2"
  "sublist ''compare them to the sites defined in the provided configuration'' missing_q3"
  "sublist ''Your output must contain only the following two sections, with no additional words, explanations, or text:'' missing_q5"
  "sublist ''add these resources to your configuration:'' missing_q6"
  "sublist (''resource '' @ [CHR 0x22] @ ''incapsula_site_v3'' @ [CHR 0x22] @ '' '' @ [CHR 0x22] @
            ''<site_name>'' @ [CHR 0x22] @ '' {{ name = '' @ [CHR 0x22] @ ''<site_name>'' @
            [CHR 0x22] @ '' }}'') missing_q6"
  "sublist ''terraform import incapsula_site_v3.<site_name> <resource_id>'' missing_q7"
  "sublist ''Output only these blocks with no additional words, explanations, or text.'' missing_q8"
  "sublist ''Only include sites that exist in one source but not the other.'' missing_q9"
  unfolding missing_q1_def missing_q2_def missing_q3_def missing_q5_def missing_q6_def
    missing_q7_def missing_q8_def missing_q9_def
  by code_simp+


lemma sublist_in_piece:
  assumes "sublist s p" and "sublist p q"
  shows "sublist s q"
proof -
  from assms(2) obtain a b where "q = a @ p @ b"
    by (auto simp: sublist_def)
  with sublist_inside [OF assms(1), of a b] show ?thesis
    by simp
qed

lemma question_instructions:
  "getMissingResources_question resources =
     getMissingResources_instructions @ Sprintf_v_TfResources resources"
  by (simp add: getMissingResources_question_def getMissingResources_instructions_def)

lemma instructions_text:
  "getMissingResources_instructions =
     ''Your task is to gather the full list of sites using the available MCP tool and compare it against the configuration provided in the user message.'' @
     '' Fetch all sites using the tool with a page size of 100.'' @
     '' After retrieving the remote sites, compare them to the sites defined in the provided configuration. '' @
     '' Produce a JSON array containing only the differences between the two sets. '' @
     '' Your output must contain only the following two sections, with no additional words, explanations, or text:\<newline>'' @
     '' add these resources to your configuration:\<newline>resource '' @ [CHR 0x22] @ ''incapsula_site_v3'' @ [CHR 0x22] @ '' '' @ [CHR 0x22] @ ''<site_name>'' @ [CHR 0x22] @ '' {{ name = '' @ [CHR 0x22] @ ''<site_name>'' @ [CHR 0x22] @ '' }}'' @
     '' run this import commands \<newline>terraform import incapsula_site_v3.<site_name> <resource_id>'' @
     '' Output only these blocks with no additional words, explanations, or text.'' @
     '' Only include sites that exist in one source but not the other.'' @
     '' If a tool call is required to obtain the data, call it.'' @
     '' this is the provided configuration: ''"
  by (simp add: getMissingResources_instructions_def missing_q1_def missing_q2_def missing_q3_def
      missing_q4_def missing_q5_def missing_q6_def missing_q7_def missing_q8_def missing_q9_def
      missing_q10_def missing_q11_def)

lemma json_array_sentence:
  "sublist ''Produce a JSON array containing only the differences between the two sets.''
     (getMissingResources_question resources)"
proof -
  have "sublist ''Produce a JSON array containing only the differences between the two sets.''
          missing_q4"
    unfolding missing_q4_def by code_simp
  moreover have "sublist missing_q4 ((missing_q1 @ missing_q2 @ missing_q3) @ missing_q4 @
      (missing_q5 @ missing_q6 @ missing_q7 @ missing_q8 @ missing_q9 @ missing_q10 @
       missing_q11 @ Sprintf_v_TfResources resources))"
    by (rule sublist_appendI)
  then have "sublist missing_q4 (getMissingResources_question resources)"
    by (simp add: getMissingResources_question_def)
  ultimately show ?thesis
    by (rule sublist_in_piece)
qed

lemma instructions_silent:
  "\<not> sublist ''pages'' getMissingResources_instructions"
  "\<not> sublist ''until'' getMissingResources_instructions"
  "\<not> sublist ''missing'' getMissingResources_instructions"
  by code_simp+

lemma part_000_events:
  "snd (getMissingResources_part_000 e d resources) =
     [AnswerWithTools getMissingResources_part_000_question (api_id d) (api_key d)]"
  by (simp add: getMissingResources_part_000_def Let_def split_beta)

text \<open>
  Claim C7, as amended. For every local inventory, \<open>getMissingResources\<close> makes one
  tool-augmented agent call with one prompt: a fixed instruction text followed by the local
  inventory printed as \<open>[{type id} ...]\<close>, so every local resource appears in it as
  \<open>{type id}\<close>. The instruction text, given here in full, tells the agent to gather the full
  list of sites with the tool, fetching all sites with a page size of 100, and to compare them
  with the sites of the provided configuration; it does not speak of pages to exhaust. It asks
  for a JSON array of the differences between the two sets, and also says that the output must
  contain only two sections, the resource block to add and the import command, with no
  additional words; the sites to include are those that exist in one source but not the other,
  in either direction. The older copy of the function sends a fixed prompt without the local
  inventory.
\<close>

theorem getMissingResources_prompt:
  "snd (getMissingResources e d resources) =
     [AnswerWithTools (getMissingResources_question resources) (api_id d) (api_key d)] \<and>
   fst (getMissingResources e d resources) =
     fst (answerWithTools e (getMissingResources_question resources) (api_id d) (api_key d)) \<and>
   getMissingResources_question resources =
     getMissingResources_instructions @ Sprintf_v_TfResources resources \<and>
   getMissingResources_instructions =
     ''Your task is to gather the full list of sites using the available MCP tool and compare it against the configuration provided in the user message.'' @
     '' Fetch all sites using the tool with a page size of 100.'' @
     '' After retrieving the remote sites, compare them to the sites defined in the provided configuration. '' @
     '' Produce a JSON array containing only the differences between the two sets. '' @
     '' Your output must contain only the following two sections, with no additional words, explanations, or text:\<newline>'' @
     '' add these resources to your configuration:\<newline>resource '' @ [CHR 0x22] @ ''incapsula_site_v3'' @ [CHR 0x22] @ '' '' @ [CHR 0x22] @ ''<site_name>'' @ [CHR 0x22] @ '' {{ name = '' @ [CHR 0x22] @ ''<site_name>'' @ [CHR 0x22] @ '' }}'' @
     '' run this import commands \<newline>terraform import incapsula_site_v3.<site_name> <resource_id>'' @
     '' Output only these blocks with no additional words, explanations, or text.'' @
     '' Only include sites that exist in one source but not the other.'' @
     '' If a tool call is required to obtain the data, call it.'' @
     '' this is the provided configuration: '' \<and>
   Sprintf_v_TfResources resources =
     ''['' @
     strings_Join (map (\<lambda>r. ''{'' @ tf_Type r @ '' '' @ tf_Id r @ ''}'') resources) '' '' @
     '']'' \<and>
   sublist ''gather the full list of sites using the available MCP tool''
     (getMissingResources_question resources) \<and>
   sublist ''Fetch all sites using the tool with a page size of 100.''
     (getMissingResources_question resources) \<and>
   sublist ''compare them to the sites defined in the provided configuration''
     (getMissingResources_question resources) \<and>
   suffix ('' this is the provided configuration: '' @ Sprintf_v_TfResources resources)
     (getMissingResources_question resources) \<and>
   (\<forall>r\<in>set resources.
      sublist (''{'' @ tf_Type r @ '' '' @ tf_Id r @ ''}'') (getMissingResources_question resources)) \<and>
   sublist ''Produce a JSON array containing only the differences between the two sets.''
     (getMissingResources_question resources) \<and>
   sublist ''Your output must contain only the following two sections, with no additional words, explanations, or text:''
     (getMissingResources_question resources) \<and>
   sublist ''add these resources to your configuration:''
     (getMissingResources_question resources) \<and>
   sublist (''resource '' @ [CHR 0x22] @ ''incapsula_site_v3'' @ [CHR 0x22] @ '' '' @ [CHR 0x22] @
            ''<site_name>'' @ [CHR 0x22] @ '' {{ name = '' @ [CHR 0x22] @ ''<site_name>'' @
            [CHR 0x22] @ '' }}'')
     (getMissingResources_question resources) \<and>
   sublist ''terraform import incapsula_site_v3.<site_name> <resource_id>''
     (getMissingResources_question resources) \<and>
   sublist ''Output only these blocks with no additional words, explanations, or text.''
     (getMissingResources_question resources) \<and>
   sublist ''Only include sites that exist in one source but not the other.''
     (getMissingResources_question resources) \<and>
   \<not> sublist ''pages'' getMissingResources_instructions \<and>
   \<not> sublist ''until'' getMissingResources_instructions \<and>
   \<not> sublist ''missing'' getMissingResources_instructions \<and>
   snd (getMissingResources_part_000 e d resources) =
     [AnswerWithTools getMissingResources_part_000_question (api_id d) (api_key d)] \<and>
   getMissingResources_part_000_question =
     ''Fetch all the sites from the backend, use pagination 50, or fetch all pages. then output all the sites in the following json format: '' @
     ''[{{ '' @ [CHR 0x22] @ ''resource_type'' @ [CHR 0x22] @ '': '' @ [CHR 0x22] @ ''<resource_type>'' @ [CHR 0x22] @ '', '' @ [CHR 0x22] @ ''resource_id'' @ [CHR 0x22] @ '': '' @ [CHR 0x22] @ ''<resource_id>'' @ [CHR 0x22] @ '', '' @ [CHR 0x22] @ ''site name'' @ [CHR 0x22] @ '': '' @ [CHR 0x22] @ ''<site_name>'' @ [CHR 0x22] @ '' }}]''"
proof (intro conjI ballI)
  show "snd (getMissingResources e d resources) =
     [AnswerWithTools (getMissingResources_question resources) (api_id d) (api_key d)]"
    by (rule task_events)
  show "fst (getMissingResources e d resources) =
     fst (answerWithTools e (getMissingResources_question resources) (api_id d) (api_key d))"
    by (simp add: getMissingResources_def Let_def split_beta)
  show "getMissingResources_question resources =
     getMissingResources_instructions @ Sprintf_v_TfResources resources"
    by (rule question_instructions)
  show "getMissingResources_instructions =
     ''Your task is to gather the full list of sites using the available MCP tool and compare it against the configuration provided in the user message.'' @
     '' Fetch all sites using the tool with a page size of 100.'' @
     '' After retrieving the remote sites, compare them to the sites defined in the provided configuration. '' @
     '' Produce a JSON array containing only the differences between the two sets. '' @
     '' Your output must contain only the following two sections, with no additional words, explanations, or text:\<newline>'' @
     '' add these resources to your configuration:\<newline>resource '' @ [CHR 0x22] @ ''incapsula_site_v3'' @ [CHR 0x22] @ '' '' @ [CHR 0x22] @ ''<site_name>'' @ [CHR 0x22] @ '' {{ name = '' @ [CHR 0x22] @ ''<site_name>'' @ [CHR 0x22] @ '' }}'' @
     '' run this import commands \<newline>terraform import incapsula_site_v3.<site_name> <resource_id>'' @
     '' Output only these blocks with no additional words, explanations, or text.'' @
     '' Only include sites that exist in one source but not the other.'' @
     '' If a tool call is required to obtain the data, call it.'' @
     '' this is the provided configuration: ''"
    by (rule instructions_text)
  show "Sprintf_v_TfResources resources =
     ''['' @
     strings_Join (map (\<lambda>r. ''{'' @ tf_Type r @ '' '' @ tf_Id r @ ''}'') resources) '' '' @
     '']''"
    by (simp add: Sprintf_v_TfResources_def Sprintf_v_TfResource_def [abs_def])
  show "sublist ''gather the full list of sites using the available MCP tool''
     (getMissingResources_question resources)"
    by (rule sublist_in_piece [OF sentences(1) question_pieces(1)])
  show "sublist ''Fetch all sites using the tool with a page size of 100.''
     (getMissingResources_question resources)"
    by (rule sublist_in_piece [OF sentences(2) question_pieces(2)])
  show "sublist ''compare them to the sites defined in the provided configuration''
     (getMissingResources_question resources)"
    by (rule sublist_in_piece [OF sentences(3) question_pieces(3)])
  show "suffix ('' this is the provided configuration: '' @ Sprintf_v_TfResources resources)
     (getMissingResources_question resources)"
    using question_pieces(9) [of resources] by (simp add: missing_q11_def)
  show "sublist ''Produce a JSON array containing only the differences between the two sets.''
     (getMissingResources_question resources)"
    by (rule json_array_sentence)
  show "sublist ''Your output must contain only the following two sections, with no additional words, explanations, or text:''
     (getMissingResources_question resources)"
    by (rule sublist_in_piece [OF sentences(4) question_pieces(4)])
  show "sublist ''add these resources to your configuration:''
     (getMissingResources_question resources)"
    by (rule sublist_in_piece [OF sentences(5) question_pieces(5)])
  show "sublist (''resource '' @ [CHR 0x22] @ ''incapsula_site_v3'' @ [CHR 0x22] @ '' '' @ [CHR 0x22] @
            ''<site_name>'' @ [CHR 0x22] @ '' {{ name = '' @ [CHR 0x22] @ ''<site_name>'' @
            [CHR 0x22] @ '' }}'')
     (getMissingResources_question resources)"
    by (rule sublist_in_piece [OF sentences(6) question_pieces(5)])
  show "sublist ''terraform import incapsula_site_v3.<site_name> <resource_id>''
     (getMissingResources_question resources)"
    by (rule sublist_in_piece [OF sentences(7) question_pieces(6)])
  show "sublist ''Output only these blocks with no additional words, explanations, or text.''
     (getMissingResources_question resources)"
    by (rule sublist_in_piece [OF sentences(8) question_pieces(7)])
  show "sublist ''Only include sites that exist in one source but not the other.''
     (getMissingResources_question resources)"
    by (rule sublist_in_piece [OF sentences(9) question_pieces(8)])
  show "\<not> sublist ''pages'' getMissingResources_instructions"
    "\<not> sublist ''until'' getMissingResources_instructions"
    "\<not> sublist ''missing'' getMissingResources_instructions"
    by (rule instructions_silent)+
  show "snd (getMissingResources_part_000 e d resources) =
     [AnswerWithTools getMissingResources_part_000_question (api_id d) (api_key d)]"
    by (rule part_000_events)
  show "getMissingResources_part_000_question =
     ''Fetch all the sites from the backend, use pagination 50, or fetch all pages. then output all the sites in the following json format: '' @
     ''[{{ '' @ [CHR 0x22] @ ''resource_type'' @ [CHR 0x22] @ '': '' @ [CHR 0x22] @ ''<resource_type>'' @ [CHR 0x22] @ '', '' @ [CHR 0x22] @ ''resource_id'' @ [CHR 0x22] @ '': '' @ [CHR 0x22] @ ''<resource_id>'' @ [CHR 0x22] @ '', '' @ [CHR 0x22] @ ''site name'' @ [CHR 0x22] @ '': '' @ [CHR 0x22] @ ''<site_name>'' @ [CHR 0x22] @ '' }}]''"
    by (simp add: getMissingResources_part_000_question_def)
next
  fix r
  assume "r \<in> set resources"
  then have "sublist (''{'' @ tf_Type r @ '' '' @ tf_Id r @ ''}'') (Sprintf_v_TfResources resources)"
    by (rule sublist_Sprintf_v)
  then show "sublist (''{'' @ tf_Type r @ '' '' @ tf_Id r @ ''}'')
     (getMissingResources_question resources)"
    by (rule sublist_in_piece [OF _ question_pieces(10)])
qed

text \<open>
  The claim as stated fails already for the empty inventory: the prompt, given in full, also
  asks for a JSON array of the differences, names the sites that exist in one source but not the
  other without a direction, and nowhere speaks of pages to exhaust or of missing resources.
  The older copy's prompt does not contain the local resources.
\<close>

theorem getMissingResources_prompt_counterexample:
  "getMissingResources_question [] =
     (''Your task is to gather the full list of sites using the available MCP tool and compare it against the configuration provided in the user message.'' @
     '' Fetch all sites using the tool with a page size of 100.'' @
     '' After retrieving the remote sites, compare them to the sites defined in the provided configuration. '' @
     '' Produce a JSON array containing only the differences between the two sets. '' @
     '' Your output must contain only the following two sections, with no additional words, explanations, or text:\<newline>'' @
     '' add these resources to your configuration:\<newline>resource '' @ [CHR 0x22] @ ''incapsula_site_v3'' @ [CHR 0x22] @ '' '' @ [CHR 0x22] @ ''<site_name>'' @ [CHR 0x22] @ '' {{ name = '' @ [CHR 0x22] @ ''<site_name>'' @ [CHR 0x22] @ '' }}'' @
     '' run this import commands \<newline>terraform import incapsula_site_v3.<site_name> <resource_id>'' @
     '' Output only these blocks with no additional words, explanations, or text.'' @
     '' Only include sites that exist in one source but not the other.'' @
     '' If a tool call is required to obtain the data, call it.'' @
     '' this is the provided configuration: '') @ ''[]'' \<and>
   sublist ''Produce a JSON array containing only the differences between the two sets.''
     (getMissingResources_question []) \<and>
   sublist ''Only include sites that exist in one source but not the other.''
     (getMissingResources_question []) \<and>
   \<not> sublist ''pages'' (getMissingResources_question []) \<and>
   \<not> sublist ''until'' (getMissingResources_question []) \<and>
   \<not> sublist ''missing'' (getMissingResources_question []) \<and>
   snd (getMissingResources_part_000 example_env example_d
          [\<lparr>tf_Type = ''incapsula_site'', tf_Id = ''42''\<rparr>]) =
     [AnswerWithTools getMissingResources_part_000_question ''id'' ''key''] \<and>
   \<not> sublist ''incapsula_site'' getMissingResources_part_000_question"
proof -
  have e: "Sprintf_v_TfResources [] = ''[]''"
    by (simp add: Sprintf_v_TfResources_def)
  have q: "getMissingResources_question [] =
     (''Your task is to gather the full list of sites using the available MCP tool and compare it against the configuration provided in the user message.'' @
     '' Fetch all sites using the tool with a page size of 100.'' @
     '' After retrieving the remote sites, compare them to the sites defined in the provided configuration. '' @
     '' Produce a JSON array containing only the differences between the two sets. '' @
     '' Your output must contain only the following two sections, with no additional words, explanations, or text:\<newline>'' @
     '' add these resources to your configuration:\<newline>resource '' @ [CHR 0x22] @ ''incapsula_site_v3'' @ [CHR 0x22] @ '' '' @ [CHR 0x22] @ ''<site_name>'' @ [CHR 0x22] @ '' {{ name = '' @ [CHR 0x22] @ ''<site_name>'' @ [CHR 0x22] @ '' }}'' @
     '' run this import commands \<newline>terraform import incapsula_site_v3.<site_name> <resource_id>'' @
     '' Output only these blocks with no additional words, explanations, or text.'' @
     '' Only include sites that exist in one source but not the other.'' @
     '' If a tool call is required to obtain the data, call it.'' @
     '' this is the provided configuration: '') @ ''[]''"
    by (simp only: question_instructions e instructions_text)
  have j: "sublist ''Produce a JSON array containing only the differences between the two sets.''
     (getMissingResources_question [])"
    by (rule json_array_sentence)
  have o: "sublist ''Only include sites that exist in one source but not the other.''
     (getMissingResources_question [])"
    by (rule sublist_in_piece [OF sentences(9) question_pieces(8)])
  have n: "\<not> sublist ''pages'' (getMissingResources_question [])"
    "\<not> sublist ''until'' (getMissingResources_question [])"
    "\<not> sublist ''missing'' (getMissingResources_question [])"
    by code_simp+
  have p: "snd (getMissingResources_part_000 example_env example_d
          [\<lparr>tf_Type = ''incapsula_site'', tf_Id = ''42''\<rparr>]) =
     [AnswerWithTools getMissingResources_part_000_question ''id'' ''key'']"
    by (simp add: part_000_events example_d_def)
  have s: "\<not> sublist ''incapsula_site'' getMissingResources_part_000_question"
    by code_simp
  show ?thesis
    by (intro conjI q j o n p s)
qed

lemma example_cycle_resources:
  "cycle_resources example_env example_d = [\<lparr>tf_Type = ''incapsula_site'', tf_Id = ''42''\<rparr>]"
proof -
  have "resources_loop (Resources example_state) [] =
        [\<lparr>tf_Type = ''incapsula_site'', tf_Id = ''42''\<rparr>]"
    by (simp add: example_state_def)
  then show ?thesis
    by (simp add: cycle_resources_def getAllResourcesTypeAndId_def example_env_def)
qed

theorem getMissingResources_prompt_witness:
  "\<lparr>tf_Type = ''incapsula_site'', tf_Id = ''42''\<rparr> \<in> set (cycle_resources example_env example_d) \<and>
   sublist ''{incapsula_site 42}''
     (getMissingResources_question (cycle_resources example_env example_d)) \<and>
   suffix '' this is the provided configuration: [{incapsula_site 42}]''
     (getMissingResources_question (cycle_resources example_env example_d))"
proof -
  note rs = example_cycle_resources
  have m: "\<lparr>tf_Type = ''incapsula_site'', tf_Id = ''42''\<rparr> \<in> set (cycle_resources example_env example_d)"
    by (simp add: rs)
  note t = getMissingResources_prompt [of example_env example_d "cycle_resources example_env example_d"]
  from t m have "sublist (''{'' @ tf_Type \<lparr>tf_Type = ''incapsula_site'', tf_Id = ''42''\<rparr> @ '' '' @
        tf_Id \<lparr>tf_Type = ''incapsula_site'', tf_Id = ''42''\<rparr> @ ''}'')
     (getMissingResources_question (cycle_resources example_env example_d))"
    by blast
  then have a: "sublist ''{incapsula_site 42}''
     (getMissingResources_question (cycle_resources example_env example_d))"
    by simp
  from t have "suffix ('' this is the provided configuration: '' @
        Sprintf_v_TfResources (cycle_resources example_env example_d))
     (getMissingResources_question (cycle_resources example_env example_d))"
    by blast
  then have b: "suffix '' this is the provided configuration: [{incapsula_site 42}]''
     (getMissingResources_question (cycle_resources example_env example_d))"
    by (simp add: rs Sprintf_v_TfResources_def Sprintf_v_TfResource_def)
  show ?thesis
    using m a b by (simp only: simp_thms)
qed


subsection \<open>The rendered-document path\<close>

lemma createHtmlReport_fst:
  "fst (createHtmlReport e d finalAnswer) =
     [\<lparr>Severity = Warning, Summary = ''Best Practice Suggestion'',
       Detail =
         getAiAnswer
           (case ioutil_WriteFile e (html_path e d) (html_document e finalAnswer) of
              Some err \<Rightarrow> ''Failed to save HTML file''
            | None \<Rightarrow> ''file://'' @ html_path e d)\<rparr>]"
  by (simp add: createHtmlReport_def getHtmlContent_def saveHtmlToFile_def html_path_def
      html_document_def Let_def split_beta split: option.splits)

text \<open>
  Claim C8, as amended. The rendered-document path has no fallback to the raw aggregated text.
  When writing the styled document fails, the detail of the diagnostic is the fixed banner
  followed by \<open>Failed to save HTML file\<close>, whatever the aggregated text was. When the write
  succeeds, the detail is the banner followed by the \<open>file://\<close> link to the written file, also
  when the rendering call returned an error with its text.
\<close>

theorem createHtmlReport_detail:
  "(ioutil_WriteFile e (html_path e d) (html_document e finalAnswer) = Some err \<longrightarrow>
      fst (createHtmlReport e d finalAnswer) =
        [\<lparr>Severity = Warning, Summary = ''Best Practice Suggestion'',
          Detail = getAiAnswer ''Failed to save HTML file''\<rparr>]) \<and>
   (ioutil_WriteFile e (html_path e d) (html_document e finalAnswer) = None \<longrightarrow>
      fst (createHtmlReport e d finalAnswer) =
        [\<lparr>Severity = Warning, Summary = ''Best Practice Suggestion'',
          Detail = getAiAnswer (''file://'' @ html_path e d)\<rparr>])"
  by (simp add: createHtmlReport_fst)

text \<open>
  The claim as stated fails where no file can be written: the payload for the aggregated text
  \<open>advice\<close> is the banner with the failure message, and the text \<open>advice\<close> is not in it.
\<close>

theorem createHtmlReport_detail_counterexample:
  "fst (createHtmlReport unwritable_env example_d ''advice'') =
     [\<lparr>Severity = Warning, Summary = ''Best Practice Suggestion'',
       Detail = getAiAnswer_banner @ ''Failed to save HTML file''\<rparr>] \<and>
   \<not> sublist ''advice'' (getAiAnswer_banner @ ''Failed to save HTML file'')"
proof -
  have "fst (createHtmlReport unwritable_env example_d ''advice'') =
     [\<lparr>Severity = Warning, Summary = ''Best Practice Suggestion'',
       Detail = getAiAnswer_banner @ ''Failed to save HTML file''\<rparr>]"
    by (simp add: createHtmlReport_fst unwritable_env_def getAiAnswer_def)
  moreover have "\<not> sublist ''advice'' (getAiAnswer_banner @ ''Failed to save HTML file'')"
    unfolding getAiAnswer_banner_def by code_simp
  ultimately show ?thesis
    by (simp only: simp_thms)
qed

theorem createHtmlReport_detail_witness:
  "ioutil_WriteFile unwritable_env (html_path unwritable_env example_d)
     (html_document unwritable_env ''advice'') = Some (Err ''permission denied'') \<and>
   fst (createHtmlReport unwritable_env example_d ''advice'') =
     [\<lparr>Severity = Warning, Summary = ''Best Practice Suggestion'',
       Detail = getAiAnswer ''Failed to save HTML file''\<rparr>] \<and>
   ioutil_WriteFile example_env (html_path example_env example_d)
     (html_document example_env ''advice'') = None \<and>
   fst (createHtmlReport example_env example_d ''advice'') =
     [\<lparr>Severity = Warning, Summary = ''Best Practice Suggestion'',
       Detail = getAiAnswer ''file:///work/site/llm_suggestion.html''\<rparr>]"
proof -
  have w: "ioutil_WriteFile unwritable_env (html_path unwritable_env example_d)
     (html_document unwritable_env ''advice'') = Some (Err ''permission denied'')"
    by (simp add: unwritable_env_def)
  have w': "ioutil_WriteFile example_env (html_path example_env example_d)
     (html_document example_env ''advice'') = None"
    by (simp add: example_env_def)
  have p: "html_path example_env example_d = ''/work/site/llm_suggestion.html''"
    by (simp add: html_path_def example_env_def example_d_def)
  from createHtmlReport_detail [of unwritable_env example_d "''advice''" "Err ''permission denied''"] w
  have a: "fst (createHtmlReport unwritable_env example_d ''advice'') =
     [\<lparr>Severity = Warning, Summary = ''Best Practice Suggestion'',
       Detail = getAiAnswer ''Failed to save HTML file''\<rparr>]"
    by blast
  from createHtmlReport_detail [of example_env example_d "''advice''" "Err ''permission denied''"] w'
  have "fst (createHtmlReport example_env example_d ''advice'') =
     [\<lparr>Severity = Warning, Summary = ''Best Practice Suggestion'',
       Detail = getAiAnswer (''file://'' @ html_path example_env example_d)\<rparr>]"
    by blast
  then have b: "fst (createHtmlReport example_env example_d ''advice'') =
     [\<lparr>Severity = Warning, Summary = ''Best Practice Suggestion'',
       Detail = getAiAnswer ''file:///work/site/llm_suggestion.html''\<rparr>]"
    by (simp add: p)
  show ?thesis
    using w a w' b by (simp only: simp_thms)
qed

end
